theory Spec2Isabelle
  imports Complex_Main "HOL-Library.AList"
begin

section \<open>JavaScript values and errors\<close>

text \<open>
  The backend is dynamically typed. Where a claim depends on the run-time type of an
  argument (a status that is an array instead of a string, a location that is an object
  instead of a coordinate pair) the argument is a \<open>jsval\<close>. \<open>JNum\<close> carries the
  finite numbers that JSON can transport; NaN and the infinities are not modelled.
  An object is an association list in insertion order.
\<close>

datatype jsval =
    JUndefined
  | JNull
  | JBool bool
  | JNum rat
  | JStr string
  | JArr "jsval list"
  | JObj "(string \<times> jsval) list"

text \<open>
  The error classes of \<open>utils/errors.js\<close> (\<open>ValidationError\<close>, \<open>NotFoundError\<close>,
  \<open>InternalError\<close> with its optional original error), JavaScript's own \<open>Error\<close> and
  \<open>TypeError\<close>, and the errors of the libraries: the validation error that Mongoose
  raises from \<open>runValidators\<close>, its \<open>CastError\<close> for a value that cannot be cast to the type
  of its path, and the driver's \<open>MongoBulkWriteError\<close>.
\<close>

datatype error =
    ValidationError string
  | NotFoundError string
  | InternalError string "error option"
  | Error string
  | TypeError string
  | MongooseValidationError string
  | CastError string
  | MongoBulkWriteError string

text \<open>\<open>AppError.statusCode\<close>: only the application's classes carry one.\<close>

fun statusCode :: "error \<Rightarrow> nat option" where
  "statusCode (ValidationError m) = Some 400"
| "statusCode (NotFoundError m) = Some 404"
| "statusCode (InternalError m e) = Some 500"
| "statusCode (Error m) = None"
| "statusCode (TypeError m) = None"
| "statusCode (MongooseValidationError m) = None"
| "statusCode (CastError m) = None"
| "statusCode (MongoBulkWriteError m) = None"

text \<open>\<open>error.message\<close>.\<close>

fun message :: "error \<Rightarrow> string" where
  "message (ValidationError m) = m"
| "message (NotFoundError m) = m"
| "message (InternalError m e) = m"
| "message (Error m) = m"
| "message (TypeError m) = m"
| "message (MongooseValidationError m) = m"
| "message (CastError m) = m"
| "message (MongoBulkWriteError m) = m"

text \<open>\<open>error instanceof ValidationError\<close> and \<open>error instanceof NotFoundError\<close>.\<close>

fun isValidationError :: "error \<Rightarrow> bool" where
  "isValidationError (ValidationError m) = True"
| "isValidationError e = False"

fun isNotFoundError :: "error \<Rightarrow> bool" where
  "isNotFoundError (NotFoundError m) = True"
| "isNotFoundError e = False"

text \<open>JavaScript truthiness (\<open>!x\<close> is its negation).\<close>

fun truthy :: "jsval \<Rightarrow> bool" where
  "truthy JUndefined = False"
| "truthy JNull = False"
| "truthy (JBool b) = b"
| "truthy (JNum n) = (n \<noteq> 0)"
| "truthy (JStr s) = (s \<noteq> [])"
| "truthy (JArr xs) = True"
| "truthy (JObj kvs) = True"

text \<open>
  \<open>literals.includes(v)\<close> for an array literal of strings: \<open>includes\<close> compares with
  SameValueZero, so only a string can be found and an array or object never is.
\<close>

fun includes_js :: "string list \<Rightarrow> jsval \<Rightarrow> bool" where
  "includes_js xs (JStr s) = (s \<in> set xs)"
| "includes_js xs v = False"

section \<open>The status state machine\<close>

text \<open>
  Reading \<open>validTransitions[key]\<close> on an object literal finds the literal's own property,
  or a property inherited from \<open>Object.prototype\<close> (a function, or the prototype itself
  for \<open>__proto__\<close>), or nothing.
\<close>

datatype 'a property = Own 'a | Inherited | Missing

definition objectPrototypeKeys :: "string list" where
  "objectPrototypeKeys =
     [''constructor'', ''__defineGetter__'', ''__defineSetter__'', ''hasOwnProperty'',
      ''__lookupGetter__'', ''__lookupSetter__'', ''isPrototypeOf'',
      ''propertyIsEnumerable'', ''toString'', ''valueOf'', ''__proto__'',
      ''toLocaleString'']"

definition validTransitions :: "string \<Rightarrow> string list property" where
  "validTransitions cur =
     (if cur = ''pending'' then Own [''assigned'', ''cancelled'']
      else if cur = ''assigned'' then Own [''collected'', ''cancelled'']
      else if cur = ''collected'' then Own []
      else if cur = ''cancelled'' then Own []
      else if cur \<in> set objectPrototypeKeys then Inherited
      else Missing)"

text \<open>
  \<open>pickupRequestSchema.methods.validateStatusTransition\<close>: the receiver's status is the
  first argument. \<open>x?.includes(v)\<close> is undefined when \<open>x\<close> is undefined and a
  TypeError when \<open>x\<close> is an inherited property, which has no \<open>includes\<close>.
\<close>

definition validateStatusTransition :: "string \<Rightarrow> string \<Rightarrow> error + unit" where
  "validateStatusTransition cur newStatus =
     (case validTransitions cur of
        Own ts \<Rightarrow>
          if \<not> includes_js ts (JStr newStatus)
          then Inl (Error (''Invalid status transition from '' @ cur @ '' to '' @ newStatus))
          else Inr ()
      | Inherited \<Rightarrow> Inl (TypeError ''validTransitions[this.status]?.includes is not a function'')
      | Missing \<Rightarrow>
          Inl (Error (''Invalid status transition from '' @ cur @ '' to '' @ newStatus)))"

text \<open>\<open>createValidationResult\<close> of \<open>commonValidation.js\<close>.\<close>

record validationResult =
  isValid :: bool
  vmessage :: string

definition createValidationResult :: "bool \<Rightarrow> string \<Rightarrow> validationResult" where
  "createValidationResult ok msg = \<lparr>isValid = ok, vmessage = (if ok then [] else msg)\<rparr>"

text \<open>The standalone \<open>validateStatusTransition(currentStatus, newStatus)\<close> of the validation module.\<close>

definition validateStatusTransitionResult :: "string \<Rightarrow> string \<Rightarrow> error + validationResult" where
  "validateStatusTransitionResult currentStatus newStatus =
     (case validTransitions currentStatus of
        Own ts \<Rightarrow>
          if \<not> includes_js ts (JStr newStatus)
          then Inr (createValidationResult False
                 (''Cannot transition from '' @ currentStatus @ '' to '' @ newStatus))
          else Inr (createValidationResult True [])
      | Inherited \<Rightarrow> Inl (TypeError ''validTransitions[currentStatus]?.includes is not a function'')
      | Missing \<Rightarrow>
          Inr (createValidationResult False
                 (''Cannot transition from '' @ currentStatus @ '' to '' @ newStatus)))"

text \<open>The four transitions of the table, as the claim lists them.\<close>

definition allowedTransition :: "string \<Rightarrow> string \<Rightarrow> bool" where
  "allowedTransition cur new =
     ((cur = ''pending'' \<and> new = ''assigned'') \<or> (cur = ''pending'' \<and> new = ''cancelled'') \<or>
      (cur = ''assigned'' \<and> new = ''collected'') \<or> (cur = ''assigned'' \<and> new = ''cancelled''))"

section \<open>The bounded cache\<close>

text \<open>
  \<open>pickupRepository.js\<close> and \<open>userRepository.js\<close> keep the same cache: a JavaScript
  \<open>Map\<close> from a key to \<open>{ value, timestamp }\<close>. A \<open>Map\<close> iterates in insertion order,
  \<open>set\<close> on a key that is present keeps the key's place and \<open>set\<close> on a new key
  appends, so the cache is an association list, oldest insertion first: \<open>Map.set\<close> is
  \<open>AList.update\<close>, \<open>Map.delete\<close> is \<open>AList.delete\<close>, \<open>Map.get\<close> is \<open>map_of\<close> and
  \<open>Map.size\<close> is the length. \<open>Date.now()\<close> is an argument, in milliseconds.
\<close>

type_synonym 'v cache = "(string \<times> ('v \<times> int)) list"

definition CACHE_TTL :: int where
  "CACHE_TTL = 5 * 60 * 1000"

definition MAX_CACHE_SIZE :: nat where
  "MAX_CACHE_SIZE = 1000"

text \<open>\<open>cache.keys().next().value\<close> then \<open>cache.delete\<close>: nothing happens on an empty map.\<close>

fun deleteOldest :: "'v cache \<Rightarrow> 'v cache" where
  "deleteOldest [] = []"
| "deleteOldest ((oldestKey, entry) # rest) = AList.delete oldestKey ((oldestKey, entry) # rest)"

definition setCacheValue :: "'v cache \<Rightarrow> int \<Rightarrow> string \<Rightarrow> 'v \<Rightarrow> 'v cache" where
  "setCacheValue c now key v =
     AList.update key (v, now) (if length c \<ge> MAX_CACHE_SIZE then deleteOldest c else c)"

definition getCacheValue :: "'v cache \<Rightarrow> int \<Rightarrow> string \<Rightarrow> 'v option \<times> 'v cache" where
  "getCacheValue c now key =
     (case map_of c key of
        None \<Rightarrow> (None, c)
      | Some (v, timestamp) \<Rightarrow>
          if now - timestamp > CACHE_TTL then (None, AList.delete key c) else (Some v, c))"

text \<open>A call of either function, and a sequence of calls run from a given cache.\<close>

datatype 'v cacheCall = SetCall int string 'v | GetCall int string

fun cacheStep :: "'v cache \<Rightarrow> 'v cacheCall \<Rightarrow> 'v cache" where
  "cacheStep c (SetCall now key v) = setCacheValue c now key v"
| "cacheStep c (GetCall now key) = snd (getCacheValue c now key)"

definition runCache :: "'v cache \<Rightarrow> 'v cacheCall list \<Rightarrow> 'v cache" where
  "runCache c calls = foldl cacheStep c calls"

section \<open>Pickup requests and the repository state\<close>

text \<open>The enumerations of the schema.\<close>

definition WASTE_TYPES :: "string list" where
  "WASTE_TYPES = [''sharps'', ''biohazard'', ''expired_meds'', ''others'']"

definition PICKUP_STATUSES :: "string list" where
  "PICKUP_STATUSES = [''pending'', ''assigned'', ''collected'', ''cancelled'']"

definition PRIORITIES :: "string list" where
  "PRIORITIES = [''low'', ''medium'', ''high'', ''urgent'']"

text \<open>
  An entry of \<open>statusHistory\<close>. Its \<open>note\<close> has \<open>trim: true\<close> and \<open>maxLength: 200\<close>: Mongoose
  applies the setter whenever it casts an entry (in a new document, in an update and in a
  \<open>bulkWrite\<close>) and checks the length of the trimmed note where validators run.
\<close>

record historyEntry =
  hstatus :: string
  hnote :: "string option"
  hupdatedAt :: int

definition isWhiteSpace :: "char \<Rightarrow> bool" where
  "isWhiteSpace c = (c \<in> set [CHR '' '', CHR 0x09, CHR 0x0A, CHR 0x0B, CHR 0x0C, CHR 0x0D])"

definition trim :: "string \<Rightarrow> string" where
  "trim s = rev (dropWhile isWhiteSpace (rev (dropWhile isWhiteSpace s)))"

definition castHistoryEntry :: "historyEntry \<Rightarrow> historyEntry" where
  "castHistoryEntry e = e\<lparr>hnote := map_option trim (hnote e)\<rparr>"

definition historyEntryValid :: "historyEntry \<Rightarrow> bool" where
  "historyEntryValid e =
     (hstatus e \<in> set PICKUP_STATUSES \<and>
      (case hnote e of None \<Rightarrow> True | Some n \<Rightarrow> length (trim n) \<le> 200))"

text \<open>
  A stored pickup request, with the fields of \<open>pickupRequestSchema.js\<close> that the
  repository reads or writes. Dates are milliseconds since the epoch. The free-text
  fields (description, collection details, quality control, route) play no part in any
  operation below and are left out, as are their length limits.
\<close>

record pickupRequest =
  clinicId :: string
  collectorId :: "string option"
  wasteType :: string
  volumeKg :: rat
  priority :: string
  isEmergency :: bool
  emergencyReason :: "string option"
  responseDeadline :: "int option"
  coordinates :: "rat list"
  status :: string
  statusHistory :: "historyEntry list"
  requestedAt :: int
  collectedAt :: "int option"
  cancelledAt :: "int option"
  isDeleted :: bool

text \<open>
  The state of \<open>PickupRepository\<close>: the MongoDB collection, keyed by \<open>_id\<close>, and the
  instance's cache of documents under the keys \<open>pickup:<id>\<close>. A cached document is the
  object that was read; a later write to the collection does not change it.
\<close>

record repository =
  db :: "(string \<times> pickupRequest) list"
  cache :: "pickupRequest cache"

text \<open>\<open>PickupRepository.validateWasteType\<close> and \<open>validateStatus\<close>, on any argument.\<close>

definition validateWasteType :: "jsval \<Rightarrow> bool" where
  "validateWasteType type = includes_js WASTE_TYPES type"

definition validateStatus :: "jsval \<Rightarrow> bool" where
  "validateStatus st = includes_js PICKUP_STATUSES st"

text \<open>An optional string or number field of a request body, as the JavaScript value read from it.\<close>

definition optStr :: "string option \<Rightarrow> jsval" where
  "optStr x = (case x of None \<Rightarrow> JUndefined | Some s \<Rightarrow> JStr s)"

definition optNum :: "rat option \<Rightarrow> jsval" where
  "optNum x = (case x of None \<Rightarrow> JUndefined | Some n \<Rightarrow> JNum n)"

definition cacheKey :: "string \<Rightarrow> string" where
  "cacheKey pid = ''pickup:'' @ pid"

text \<open>
  \<open>mongoose.Types.ObjectId.isValid\<close> belongs to the library; it is modelled on strings,
  where it accepts 24 hexadecimal digits or any 12 characters (an id that is a number
  is not modelled). The same strings are those that Mongoose can cast to an \<open>ObjectId\<close>;
  a query whose \<open>_id\<close> is any other string, and an update that sets such a string on a
  path of that type, throws \<open>CastError\<close> before it reads or writes.
\<close>

definition ObjectId_isValid :: "string \<Rightarrow> bool" where
  "ObjectId_isValid s =
     ((length s = 24 \<and> list_all (\<lambda>c. c \<in> set ''0123456789abcdefABCDEF'') s) \<or> length s = 12)"

definition castError :: "string \<Rightarrow> string \<Rightarrow> error" where
  "castError v path =
     CastError (''Cast to ObjectId failed for value '' @ [CHR 0x22] @ v @ [CHR 0x22] @
                '' (type string) at path '' @ [CHR 0x22] @ path @ [CHR 0x22] @
                '' for model '' @ [CHR 0x22] @ ''PickupRequest'' @ [CHR 0x22])"

text \<open>\<open>findOne({ _id: id, isDeleted: { $ne: true } })\<close> on the collection.\<close>

definition findOneActive :: "(string \<times> pickupRequest) list \<Rightarrow> string \<Rightarrow> pickupRequest option" where
  "findOneActive coll pid =
     (case map_of coll pid of
        None \<Rightarrow> None
      | Some d \<Rightarrow> if isDeleted d then None else Some d)"

text \<open>\<open>PickupRepository.findById\<close>: the cached document if there is a fresh one, else a read that is cached.\<close>

definition PickupRepository_findById ::
  "repository \<Rightarrow> int \<Rightarrow> string \<Rightarrow> (error + pickupRequest) \<times> repository" where
  "PickupRepository_findById st now pid =
     (case getCacheValue (cache st) now (cacheKey pid) of
        (Some cached, c1) \<Rightarrow> (Inr cached, st\<lparr>cache := c1\<rparr>)
      | (None, c1) \<Rightarrow>
          if \<not> ObjectId_isValid pid then (Inl (castError pid ''_id''), st\<lparr>cache := c1\<rparr>)
          else
            (case findOneActive (db st) pid of
               None \<Rightarrow> (Inl (NotFoundError ''Pickup request not found''), st\<lparr>cache := c1\<rparr>)
             | Some request \<Rightarrow>
                 (Inr request, st\<lparr>cache := setCacheValue c1 now (cacheKey pid) request\<rparr>)))"

subsection \<open>Update\<close>

text \<open>
  The \<open>data\<close> of an update: each property may be absent. \<open>statusNote\<close> is not a path of
  the schema and is only read by the repository. The other paths of the schema (the
  emergency object, the location, the free texts) are not among the modelled properties
  of an update.
\<close>

record updateData =
  u_status :: "string option"
  u_wasteType :: "string option"
  u_volumeKg :: "rat option"
  u_collectorId :: "string option"
  u_priority :: "string option"
  u_statusNote :: "string option"
  u_statusHistory :: "historyEntry list option"
  u_collectedAt :: "int option"
  u_cancelledAt :: "int option"

text \<open>
  The validators that \<open>findByIdAndUpdate\<close> runs under \<open>runValidators: true\<close> on the
  paths being set: the enums of the schema, the range of \<open>volumeKg\<close>, and for each entry
  of a history that is set its status and the length of its note.
\<close>

definition updateValidators :: "updateData \<Rightarrow> bool" where
  "updateValidators u =
     ((case u_status u of None \<Rightarrow> True | Some s \<Rightarrow> s \<in> set PICKUP_STATUSES) \<and>
      (case u_wasteType u of None \<Rightarrow> True | Some w \<Rightarrow> w \<in> set WASTE_TYPES) \<and>
      (case u_priority u of None \<Rightarrow> True | Some p \<Rightarrow> p \<in> set PRIORITIES) \<and>
      (case u_volumeKg u of None \<Rightarrow> True | Some v \<Rightarrow> 0 \<le> v \<and> v \<le> 1000) \<and>
      (case u_statusHistory u of None \<Rightarrow> True | Some h \<Rightarrow> list_all historyEntryValid h))"

definition applyUpdate :: "updateData \<Rightarrow> pickupRequest \<Rightarrow> pickupRequest" where
  "applyUpdate u d =
     d\<lparr>status := (case u_status u of None \<Rightarrow> status d | Some s \<Rightarrow> s),
       wasteType := (case u_wasteType u of None \<Rightarrow> wasteType d | Some w \<Rightarrow> w),
       volumeKg := (case u_volumeKg u of None \<Rightarrow> volumeKg d | Some v \<Rightarrow> v),
       collectorId := (case u_collectorId u of None \<Rightarrow> collectorId d | Some c \<Rightarrow> Some c),
       priority := (case u_priority u of None \<Rightarrow> priority d | Some p \<Rightarrow> p),
       statusHistory :=
         (case u_statusHistory u of None \<Rightarrow> statusHistory d | Some h \<Rightarrow> map castHistoryEntry h),
       collectedAt := (case u_collectedAt u of None \<Rightarrow> collectedAt d | Some t \<Rightarrow> Some t),
       cancelledAt := (case u_cancelledAt u of None \<Rightarrow> cancelledAt d | Some t \<Rightarrow> Some t)\<rparr>"

text \<open>
  \<open>BaseRepository.update\<close>: \<open>findByIdAndUpdate(id, update, { new: true, runValidators: true })\<close>,
  which casts the id and the update, runs the validators, matches on \<open>_id\<close> alone, and
  \<open>NotFoundError\<close> when nothing matched.
\<close>

definition BaseRepository_update ::
  "repository \<Rightarrow> string \<Rightarrow> updateData \<Rightarrow> (error + pickupRequest) \<times> repository" where
  "BaseRepository_update st pid u =
     (if \<not> ObjectId_isValid pid then (Inl (castError pid ''_id''), st)
      else if (case u_collectorId u of None \<Rightarrow> False | Some c \<Rightarrow> \<not> ObjectId_isValid c)
      then (Inl (castError (case u_collectorId u of None \<Rightarrow> [] | Some c \<Rightarrow> c) ''collectorId''), st)
      else if \<not> updateValidators u then (Inl (MongooseValidationError ''Validation failed''), st)
      else case map_of (db st) pid of
             None \<Rightarrow> (Inl (NotFoundError ''PickupRequest not found''), st)
           | Some d \<Rightarrow>
               (Inr (applyUpdate u d), st\<lparr>db := AList.update pid (applyUpdate u d) (db st)\<rparr>))"

text \<open>The guard on status changes in \<open>PickupRepository.update\<close>; \<open>None\<close> when nothing is thrown.\<close>

definition statusTransitionGuard :: "pickupRequest \<Rightarrow> updateData \<Rightarrow> error option" where
  "statusTransitionGuard request data =
     (if truthy (optStr (u_status data)) then
        (if status request = ''collected'' \<and> u_status data \<noteq> Some ''collected''
         then Some (ValidationError ''Cannot change status of collected requests'')
         else if status request = ''cancelled'' \<and> u_status data \<noteq> Some ''cancelled''
         then Some (ValidationError ''Cannot change status of cancelled requests'')
         else if u_status data = Some ''assigned'' \<and> \<not> truthy (optStr (u_collectorId data))
         then Some (ValidationError ''Collector ID required for assigned status'')
         else None)
      else None)"

text \<open>The object handed to \<open>super.update\<close>: \<open>data\<close>, the extended history and \<open>collectedAt\<close>.\<close>

definition buildUpdate :: "pickupRequest \<Rightarrow> int \<Rightarrow> updateData \<Rightarrow> updateData" where
  "buildUpdate request now data =
     data\<lparr>u_statusHistory :=
            (case u_status data of
               None \<Rightarrow> u_statusHistory data
             | Some s \<Rightarrow>
                 if s = [] then u_statusHistory data
                 else Some (statusHistory request @
                        [\<lparr>hstatus = s, hnote = u_statusNote data, hupdatedAt = now\<rparr>])),
          u_collectedAt :=
            (if u_status data = Some ''collected'' then Some now else u_collectedAt data)\<rparr>"

definition PickupRepository_update ::
  "repository \<Rightarrow> int \<Rightarrow> string \<Rightarrow> updateData \<Rightarrow> (error + pickupRequest) \<times> repository" where
  "PickupRepository_update st now pid data =
     (if truthy (optStr (u_status data)) \<and> \<not> validateStatus (optStr (u_status data))
      then (Inl (ValidationError ''Invalid status''), st)
      else if truthy (optStr (u_wasteType data)) \<and> \<not> validateWasteType (optStr (u_wasteType data))
      then (Inl (ValidationError ''Invalid waste type''), st)
      else if truthy (optNum (u_volumeKg data)) \<and> (case u_volumeKg data of None \<Rightarrow> False | Some v \<Rightarrow> v \<le> 0)
      then (Inl (ValidationError ''Volume must be a positive number''), st)
      else
        (case PickupRepository_findById st now pid of
           (Inl e, st1) \<Rightarrow> (Inl e, st1)
         | (Inr request, st1) \<Rightarrow>
             (case statusTransitionGuard request data of
                Some e \<Rightarrow> (Inl e, st1)
              | None \<Rightarrow>
                  (case BaseRepository_update st1 pid (buildUpdate request now data) of
                     (Inl e, st2) \<Rightarrow> (Inl e, st2)
                   | (Inr updated, st2) \<Rightarrow>
                       (Inr updated, st2\<lparr>cache := AList.delete (cacheKey pid) (cache st2)\<rparr>)))))"

definition emptyUpdate :: updateData where
  "emptyUpdate = \<lparr>u_status = None, u_wasteType = None, u_volumeKg = None, u_collectorId = None,
     u_priority = None, u_statusNote = None, u_statusHistory = None, u_collectedAt = None,
     u_cancelledAt = None\<rparr>"

text \<open>\<open>assignCollector\<close> and \<open>cancel\<close> are updates (\<open>cancelledBy\<close> is not a path of the schema).\<close>

definition assignCollector ::
  "repository \<Rightarrow> int \<Rightarrow> string \<Rightarrow> string option \<Rightarrow> string \<Rightarrow> (error + pickupRequest) \<times> repository" where
  "assignCollector st now requestId collector note =
     PickupRepository_update st now requestId
       (emptyUpdate\<lparr>u_collectorId := collector, u_status := Some ''assigned'', u_statusNote := Some note\<rparr>)"

definition cancel ::
  "repository \<Rightarrow> int \<Rightarrow> string \<Rightarrow> string option \<Rightarrow> (error + pickupRequest) \<times> repository" where
  "cancel st now pid reason =
     (if \<not> truthy (optStr reason) then (Inl (ValidationError ''Cancellation reason is required''), st)
      else PickupRepository_update st now pid
             (emptyUpdate\<lparr>u_status := Some ''cancelled'', u_statusNote := reason, u_cancelledAt := Some now\<rparr>))"

subsection \<open>Bulk operations\<close>

text \<open>
  One \<open>updateOne\<close> of a \<open>bulkWrite\<close>: the filter's \<open>_id\<close>, the \<open>$set\<close> and the \<open>$push\<close>
  to \<open>statusHistory\<close>. The \<open>lastModifiedAt\<close> that the code sets is not a path of the
  schema and changes no modelled field. No validator runs.
\<close>

record updateOne =
  filter_id :: string
  set_status :: string
  set_collectorId :: "string option"
  set_lastModifiedAt :: int
  push_statusHistory :: historyEntry

definition applyUpdateOne ::
  "(string \<times> pickupRequest) list \<Rightarrow> updateOne \<Rightarrow> (string \<times> pickupRequest) list" where
  "applyUpdateOne coll w =
     (case map_of coll (filter_id w) of
        None \<Rightarrow> coll
      | Some d \<Rightarrow>
          AList.update (filter_id w)
            (d\<lparr>status := set_status w,
               collectorId := (case set_collectorId w of None \<Rightarrow> collectorId d | Some c \<Rightarrow> Some c),
               statusHistory := statusHistory d @ [castHistoryEntry (push_statusHistory w)]\<rparr>) coll)"


text \<open>
  The options of \<open>model.bulkWrite(operations, options)\<close> that decide what is stored:
  \<open>ordered\<close>, and the \<open>session\<close> of a transaction of the caller, if there is one.
\<close>

record bulkWriteOptions =
  ordered :: bool
  session :: "string option"

text \<open>
  What the database does with one bulk write is not decided by the program: which
  operations it fails with a write error (\<open>failing\<close>, by their index in the list), and in
  which order it takes the operations of an unordered write (\<open>taken\<close>). An \<open>updateOne\<close> is
  atomic on its document, so the outcome of an unordered write is that of the operations
  in some order.
\<close>

record serverRun =
  taken :: "nat list"
  failing :: "nat list"

text \<open>
  A rearrangement of a list: each number of \<open>picks\<close> chooses the next element among those
  that are left; when the picks run out the rest keeps its order.
\<close>

fun reorder :: "nat list \<Rightarrow> 'a list \<Rightarrow> 'a list" where
  "reorder [] xs = xs"
| "reorder (p # picks) xs =
     (if xs = [] then []
      else (xs ! (p mod length xs)) #
           reorder picks (take (p mod length xs) xs @ drop (Suc (p mod length xs)) xs))"

definition accepted :: "serverRun \<Rightarrow> nat \<times> updateOne \<Rightarrow> bool" where
  "accepted srv iw = (fst iw \<notin> set (failing srv))"

text \<open>
  The operations of a bulk write that are stored, in the order in which they are
  applied. An ordered write stops at the first operation that fails. An unordered write
  attempts every operation, in an order of the server's choosing, and the failure of one
  does not keep another from being stored. Inside a transaction a failure aborts the
  transaction and nothing is stored.
\<close>

definition written :: "bulkWriteOptions \<Rightarrow> serverRun \<Rightarrow> updateOne list \<Rightarrow> updateOne list" where
  "written opts srv ops =
     (if session opts \<noteq> None \<and> \<not> list_all (accepted srv) (enumerate 0 ops) then []
      else if ordered opts then map snd (takeWhile (accepted srv) (enumerate 0 ops))
      else map snd (reorder (taken srv) (filter (accepted srv) (enumerate 0 ops))))"

definition matched :: "(string \<times> pickupRequest) list \<Rightarrow> updateOne list \<Rightarrow> nat" where
  "matched coll ws = length (filter (\<lambda>w. map_of coll (filter_id w) \<noteq> None) ws)"

record bulkWriteResult =
  bw_matchedCount :: nat
  bw_modifiedCount :: nat

text \<open>
  \<open>model.bulkWrite(operations, options)\<close>: the collection after the write, and the result
  or, when an operation failed, the \<open>MongoBulkWriteError\<close> that is thrown. Every operation
  here pushes a history entry, so it modifies the document that it matches.
\<close>

definition bulkWrite ::
  "(string \<times> pickupRequest) list \<Rightarrow> updateOne list \<Rightarrow> bulkWriteOptions \<Rightarrow> serverRun \<Rightarrow>
   (error + bulkWriteResult) \<times> (string \<times> pickupRequest) list" where
  "bulkWrite coll ops opts srv =
     (if list_all (accepted srv) (enumerate 0 ops)
      then (Inr \<lparr>bw_matchedCount = matched coll (written opts srv ops),
                 bw_modifiedCount = matched coll (written opts srv ops)\<rparr>,
            foldl applyUpdateOne coll (written opts srv ops))
      else (Inl (MongoBulkWriteError ''Write error''),
            foldl applyUpdateOne coll (written opts srv ops)))"

record bulkResult =
  success :: bool
  modifiedCount :: nat
  matchedCount :: nat
  resultMessage :: "string option"

record bulkError =
  be_index :: nat
  be_id :: "string option"
  be_error :: string

record statusUpdate =
  su_id :: "string option"
  su_status :: "string option"
  su_note :: "string option"

text \<open>The body of the inner \<open>try\<close> of \<open>bulkUpdateStatus\<close> for one entry: an operation, or what was thrown.\<close>

definition bulkUpdateStatus_entry ::
  "repository \<Rightarrow> int \<Rightarrow> statusUpdate \<Rightarrow> (error + updateOne) \<times> repository" where
  "bulkUpdateStatus_entry st now u =
     (case (su_id u, su_status u) of
        (Some pid, Some newStatus) \<Rightarrow>
          if pid = [] \<or> newStatus = []
          then (Inl (ValidationError ''Missing required fields: id and status''), st)
          else
            (case PickupRepository_findById st now pid of
               (Inl e, st1) \<Rightarrow> (Inl e, st1)
             | (Inr pickup, st1) \<Rightarrow>
                 (case validateStatusTransition (status pickup) newStatus of
                    Inl e \<Rightarrow> (Inl e, st1)
                  | Inr ok \<Rightarrow>
                      (Inr \<lparr>filter_id = pid, set_status = newStatus, set_collectorId = None,
                            set_lastModifiedAt = now,
                            push_statusHistory =
                              \<lparr>hstatus = newStatus,
                               hnote = Some (case su_note u of None \<Rightarrow> [] | Some n \<Rightarrow> n),
                               hupdatedAt = now\<rparr>\<rparr>, st1)))
      | other \<Rightarrow> (Inl (ValidationError ''Missing required fields: id and status''), st))"

text \<open>The \<open>for\<close> loop over \<open>updates.entries()\<close>: \<open>bulkOps\<close> and \<open>errors\<close> grow, the cache changes.\<close>

fun bulkUpdateStatus_loop ::
  "repository \<Rightarrow> int \<Rightarrow> nat \<Rightarrow> statusUpdate list \<Rightarrow> updateOne list \<Rightarrow> bulkError list \<Rightarrow>
   updateOne list \<times> bulkError list \<times> repository" where
  "bulkUpdateStatus_loop st now index [] bulkOps errors = (bulkOps, errors, st)"
| "bulkUpdateStatus_loop st now index (u # us) bulkOps errors =
     (case bulkUpdateStatus_entry st now u of
        (Inl e, st1) \<Rightarrow>
          bulkUpdateStatus_loop st1 now (Suc index) us bulkOps
            (errors @ [\<lparr>be_index = index, be_id = su_id u, be_error = message e\<rparr>])
      | (Inr w, st1) \<Rightarrow>
          bulkUpdateStatus_loop st1 now (Suc index) us (bulkOps @ [w]) errors)"

text \<open>
  What follows the loop in both bulk operations: the \<open>throw\<close> when there are errors, else
  \<open>this.model.bulkWrite(bulkOps, { ordered: false })\<close>, with no session. The \<open>{ errors }\<close>
  given to \<open>new ValidationError(message, { errors })\<close> is dropped by the one-argument
  constructor. The outer \<open>catch\<close> rethrows a \<open>ValidationError\<close> as it is and wraps the
  error of the write. \<open>srv\<close> is the server's part in the write.
\<close>

definition bulkFinish ::
  "string \<Rightarrow> string \<Rightarrow> string \<Rightarrow> serverRun \<Rightarrow> updateOne list \<times> bulkError list \<times> repository \<Rightarrow>
   (error + bulkResult) \<times> repository" where
  "bulkFinish failed nothing wrapped srv r =
     (case r of (bulkOps, errors, st1) \<Rightarrow>
        if length errors > 0 then (Inl (ValidationError failed), st1)
        else if length bulkOps > 0 then
          (case bulkWrite (db st1) bulkOps \<lparr>ordered = False, session = None\<rparr> srv of
             (Inl e, coll) \<Rightarrow> (Inl (InternalError wrapped (Some e)), st1\<lparr>db := coll\<rparr>)
           | (Inr result, coll) \<Rightarrow>
               (Inr \<lparr>success = True, modifiedCount = bw_modifiedCount result,
                     matchedCount = bw_matchedCount result, resultMessage = None\<rparr>,
                st1\<lparr>db := coll\<rparr>))
        else (Inr \<lparr>success = False, modifiedCount = 0, matchedCount = 0,
                   resultMessage = Some nothing\<rparr>, st1))"

definition bulkUpdateStatus ::
  "repository \<Rightarrow> int \<Rightarrow> serverRun \<Rightarrow> statusUpdate list \<Rightarrow> (error + bulkResult) \<times> repository" where
  "bulkUpdateStatus st now srv updates =
     bulkFinish ''Bulk update validation failed'' ''No valid updates to process''
       ''Failed to process bulk status updates'' srv
       (bulkUpdateStatus_loop st now 0 updates [] [])"

record assignment =
  as_pickupId :: "string option"
  as_collectorId :: "string option"
  as_note :: "string option"

definition bulkAssignCollectors_entry ::
  "repository \<Rightarrow> int \<Rightarrow> assignment \<Rightarrow> (error + updateOne) \<times> repository" where
  "bulkAssignCollectors_entry st now a =
     (case (as_pickupId a, as_collectorId a) of
        (Some pid, Some collector) \<Rightarrow>
          if pid = [] \<or> collector = []
          then (Inl (ValidationError ''Missing required fields: pickupId and collectorId''), st)
          else
            (case PickupRepository_findById st now pid of
               (Inl e, st1) \<Rightarrow> (Inl e, st1)
             | (Inr pickup, st1) \<Rightarrow>
                 if status pickup \<noteq> ''pending''
                 then (Inl (ValidationError
                         (''Cannot assign collector to '' @ status pickup @ '' pickup request'')), st1)
                 else
                   (Inr \<lparr>filter_id = pid, set_status = ''assigned'', set_collectorId = Some collector,
                         set_lastModifiedAt = now,
                         push_statusHistory =
                           \<lparr>hstatus = ''assigned'',
                            hnote = Some (case as_note a of None \<Rightarrow> [] | Some n \<Rightarrow> n),
                            hupdatedAt = now\<rparr>\<rparr>, st1))
      | other \<Rightarrow> (Inl (ValidationError ''Missing required fields: pickupId and collectorId''), st))"

fun bulkAssignCollectors_loop ::
  "repository \<Rightarrow> int \<Rightarrow> nat \<Rightarrow> assignment list \<Rightarrow> updateOne list \<Rightarrow> bulkError list \<Rightarrow>
   updateOne list \<times> bulkError list \<times> repository" where
  "bulkAssignCollectors_loop st now index [] bulkOps errors = (bulkOps, errors, st)"
| "bulkAssignCollectors_loop st now index (a # as) bulkOps errors =
     (case bulkAssignCollectors_entry st now a of
        (Inl e, st1) \<Rightarrow>
          bulkAssignCollectors_loop st1 now (Suc index) as bulkOps
            (errors @ [\<lparr>be_index = index, be_id = as_pickupId a, be_error = message e\<rparr>])
      | (Inr w, st1) \<Rightarrow>
          bulkAssignCollectors_loop st1 now (Suc index) as (bulkOps @ [w]) errors)"

definition bulkAssignCollectors ::
  "repository \<Rightarrow> int \<Rightarrow> serverRun \<Rightarrow> assignment list \<Rightarrow> (error + bulkResult) \<times> repository" where
  "bulkAssignCollectors st now srv assignments =
     bulkFinish ''Bulk assignment validation failed'' ''No valid assignments to process''
       ''Failed to process bulk collector assignments'' srv
       (bulkAssignCollectors_loop st now 0 assignments [] [])"

subsection \<open>Create\<close>

text \<open>
  The \<open>data\<close> of a new request. \<open>location\<close> is kept as the JavaScript value it is, since
  the checks on it are dynamic; the other properties are typed and may be absent.
\<close>

record emergencyData =
  e_isEmergency :: bool
  e_reason :: "string option"
  e_responseDeadline :: "int option"

record pickupData =
  d_clinicId :: "string option"
  d_wasteType :: "string option"
  d_volumeKg :: "rat option"
  d_location :: jsval
  d_priority :: "string option"
  d_emergency :: "emergencyData option"
  d_status :: "string option"
  d_statusHistory :: "historyEntry list option"
  d_requestedAt :: "int option"

text \<open>\<open>v?.key\<close>, and \<open>v.key\<close> on a value that is not null or undefined: only an object has properties here.\<close>

fun optProp :: "jsval \<Rightarrow> string \<Rightarrow> jsval" where
  "optProp (JObj kvs) key = (case map_of kvs key of None \<Rightarrow> JUndefined | Some v \<Rightarrow> v)"
| "optProp v key = JUndefined"

fun isArray :: "jsval \<Rightarrow> bool" where
  "isArray (JArr xs) = True"
| "isArray v = False"

text \<open>\<open>validateObjectId\<close> and \<open>validateCoordinates\<close> of \<open>utils/validation.js\<close>.\<close>

fun validateObjectId :: "jsval \<Rightarrow> bool" where
  "validateObjectId (JStr s) = (if s = [] then False else ObjectId_isValid s)"
| "validateObjectId v = False"

fun validateCoordinates :: "jsval \<Rightarrow> bool" where
  "validateCoordinates (JArr [JNum longitude, JNum latitude]) =
     (if longitude < -180 \<or> longitude > 180 then False
      else if latitude < -90 \<or> latitude > 90 then False
      else True)"
| "validateCoordinates v = False"

text \<open>
  Casting \<open>location.coordinates\<close> to the schema's \<open>[Number]\<close>, for an array of numbers.
  (Mongoose also casts a string that spells a number; such coordinates are not modelled
  and count as uncastable.)
\<close>

fun castNumber :: "jsval \<Rightarrow> rat option" where
  "castNumber (JNum n) = Some n"
| "castNumber v = None"

fun castCoordinates :: "jsval \<Rightarrow> rat list option" where
  "castCoordinates (JArr xs) =
     (if list_all (\<lambda>x. castNumber x \<noteq> None) xs then Some (map (\<lambda>x. the (castNumber x)) xs) else None)"
| "castCoordinates v = None"

text \<open>The validator of \<open>commonSchemas.location.coordinates\<close>.\<close>

definition locationValidator :: "rat list \<Rightarrow> bool" where
  "locationValidator coords =
     (case coords of
        [lon, lat] \<Rightarrow> lon \<ge> -180 \<and> lon \<le> 180 \<and> lat \<ge> -90 \<and> lat \<le> 90
      | other \<Rightarrow> False)"

text \<open>
  Validation of a new document against the schema, as a list of failing paths with the
  schema's messages, in the order of the schema.
\<close>

definition schemaErrors :: "int \<Rightarrow> pickupData \<Rightarrow> string list" where
  "schemaErrors now data =
     (case d_clinicId data of
        None \<Rightarrow> [''clinicId: Clinic ID is required for pickup requests'']
      | Some c \<Rightarrow> if ObjectId_isValid c then [] else [''clinicId: Cast to ObjectId failed'']) @
     (case d_wasteType data of
        None \<Rightarrow> [''wasteType: Waste type is required'']
      | Some w \<Rightarrow>
          if w = [] then [''wasteType: Waste type is required'']
          else if w \<in> set WASTE_TYPES then []
          else [''wasteType: Invalid waste type. Must be one of: sharps, biohazard, expired_meds, others'']) @
     (case d_volumeKg data of
        None \<Rightarrow> [''volumeKg: Volume in kg is required'']
      | Some v \<Rightarrow>
          if v < 0 then [''volumeKg: Volume must be a positive number'']
          else if v > 1000 then [''volumeKg: Volume cannot exceed 1000 kg'']
          else []) @
     (case d_priority data of
        None \<Rightarrow> []
      | Some p \<Rightarrow>
          if p \<in> set PRIORITIES then []
          else [''priority: Invalid priority level. Must be one of: low, medium, high, urgent'']) @
     (case d_emergency data of
        None \<Rightarrow> []
      | Some e \<Rightarrow>
          (if e_isEmergency e \<and> (e_reason e = None \<or> e_reason e = Some [])
           then [''emergency.reason: Path `emergency.reason` is required.''] else []) @
          (case e_responseDeadline e of
             None \<Rightarrow>
               if e_isEmergency e
               then [''emergency.responseDeadline: Path `emergency.responseDeadline` is required.'']
               else []
           | Some t \<Rightarrow>
               if t > now then []
               else [''emergency.responseDeadline: Response deadline must be in the future''])) @
     (case castCoordinates (optProp (d_location data) ''coordinates'') of
        None \<Rightarrow> [''location: Path `location` is required.'']
      | Some coords \<Rightarrow>
          if locationValidator coords then []
          else [''location.coordinates: Invalid coordinates. Must be [longitude, latitude] with valid ranges'']) @
     (case d_status data of
        None \<Rightarrow> []
      | Some s \<Rightarrow>
          if s \<in> set PICKUP_STATUSES then []
          else [''status: Invalid status. Must be one of: pending, assigned, collected, cancelled'']) @
     (case d_statusHistory data of
        None \<Rightarrow> []
      | Some h \<Rightarrow>
          if list_all historyEntryValid h then []
          else [''statusHistory: Validation failed''])"

text \<open>\<open>new this.model(data)\<close>: the given values, and the schema's defaults for what is absent.\<close>

definition newDocument :: "int \<Rightarrow> pickupData \<Rightarrow> pickupRequest" where
  "newDocument now data =
     \<lparr>clinicId = (case d_clinicId data of None \<Rightarrow> [] | Some c \<Rightarrow> c),
      collectorId = None,
      wasteType = (case d_wasteType data of None \<Rightarrow> [] | Some w \<Rightarrow> w),
      volumeKg = (case d_volumeKg data of None \<Rightarrow> 0 | Some v \<Rightarrow> v),
      priority = (case d_priority data of None \<Rightarrow> ''medium'' | Some p \<Rightarrow> p),
      isEmergency = (case d_emergency data of None \<Rightarrow> False | Some e \<Rightarrow> e_isEmergency e),
      emergencyReason = (case d_emergency data of None \<Rightarrow> None | Some e \<Rightarrow> e_reason e),
      responseDeadline = (case d_emergency data of None \<Rightarrow> None | Some e \<Rightarrow> e_responseDeadline e),
      coordinates =
        (case castCoordinates (optProp (d_location data) ''coordinates'') of
           None \<Rightarrow> [] | Some coords \<Rightarrow> coords),
      status = (case d_status data of None \<Rightarrow> ''pending'' | Some s \<Rightarrow> s),
      statusHistory = (case d_statusHistory data of None \<Rightarrow> [] | Some h \<Rightarrow> map castHistoryEntry h),
      requestedAt = (case d_requestedAt data of None \<Rightarrow> now | Some t \<Rightarrow> t),
      collectedAt = None,
      cancelledAt = None,
      isDeleted = False\<rparr>"

text \<open>
  The \<open>pre('save')\<close> hook of the schema. Its first argument is \<open>Date.now()\<close>, its second
  the value of \<open>this.isModified('status')\<close>.
\<close>

definition preSaveHook :: "int \<Rightarrow> bool \<Rightarrow> pickupRequest \<Rightarrow> pickupRequest" where
  "preSaveHook now statusModified doc =
     (let doc1 =
            (if statusModified
             then doc\<lparr>statusHistory := statusHistory doc @
                        [\<lparr>hstatus = status doc, hnote = None, hupdatedAt = now\<rparr>]\<rparr>
             else doc)
      in if isEmergency doc1 \<and> priority doc1 \<noteq> ''urgent'' then doc1\<lparr>priority := ''urgent''\<rparr> else doc1)"

fun joinWith :: "string \<Rightarrow> string list \<Rightarrow> string" where
  "joinWith sep [] = []"
| "joinWith sep [x] = x"
| "joinWith sep (x # y # ys) = x @ sep @ joinWith sep (y # ys)"

text \<open>
  \<open>BaseRepository.create\<close>: \<open>new this.model(data)\<close> and \<open>doc.save()\<close>, which validates, runs
  the hook and inserts under the \<open>_id\<close> chosen for the document (an argument here).
  Mongoose marks as modified every path that a new document was given, so in the hook
  \<open>isModified('status')\<close> holds exactly when \<open>data\<close> has a \<open>status\<close>. A validation error
  and a duplicate key become \<open>ValidationError\<close>.
\<close>

definition BaseRepository_create ::
  "repository \<Rightarrow> int \<Rightarrow> string \<Rightarrow> pickupData \<Rightarrow> (error + pickupRequest) \<times> repository" where
  "BaseRepository_create st now newId data =
     (if schemaErrors now data \<noteq> []
      then (Inl (ValidationError (''Invalid PickupRequest data: PickupRequest validation failed: '' @
                   joinWith '', '' (schemaErrors now data))), st)
      else if map_of (db st) newId \<noteq> None
      then (Inl (ValidationError ''PickupRequest with these details already exists''), st)
      else
        (let doc = preSaveHook now (d_status data \<noteq> None) (newDocument now data)
         in (Inr doc, st\<lparr>db := db st @ [(newId, doc)]\<rparr>)))"

text \<open>\<open>PickupRepository.create\<close>. \<open>populate\<close> changes none of the modelled fields.\<close>

definition PickupRepository_create ::
  "repository \<Rightarrow> int \<Rightarrow> string \<Rightarrow> pickupData \<Rightarrow> (error + pickupRequest) \<times> repository" where
  "PickupRepository_create st now newId data =
     (if \<not> truthy (optStr (d_clinicId data))
      then (Inl (ValidationError ''Clinic ID is required''), st)
      else if \<not> truthy (optStr (d_wasteType data)) \<or> \<not> validateWasteType (optStr (d_wasteType data))
      then (Inl (ValidationError ''Invalid or missing waste type''), st)
      else if \<not> truthy (optNum (d_volumeKg data)) \<or>
              (case d_volumeKg data of None \<Rightarrow> False | Some v \<Rightarrow> v \<le> 0 \<or> v > 1000)
      then (Inl (ValidationError ''Volume must be between 0 and 1000 kg''), st)
      else if \<not> truthy (optProp (d_location data) ''coordinates'') \<or>
              \<not> isArray (optProp (d_location data) ''coordinates'')
      then (Inl (ValidationError ''Valid location coordinates are required''), st)
      else
        (let data1 =
               (if (case d_emergency data of None \<Rightarrow> False | Some e \<Rightarrow> e_isEmergency e) \<and>
                   (\<not> truthy (optStr (d_priority data)) \<or> d_priority data \<noteq> Some ''urgent'')
                then data\<lparr>d_priority := Some ''urgent''\<rparr> else data)
         in BaseRepository_create st now newId
              (data1\<lparr>d_status := Some ''pending'',
                     d_requestedAt := Some now,
                     d_statusHistory :=
                       Some [\<lparr>hstatus = ''pending'', hnote = None, hupdatedAt = now\<rparr>]\<rparr>)))"

subsection \<open>Priority\<close>

definition updatePriority ::
  "repository \<Rightarrow> int \<Rightarrow> string \<Rightarrow> string \<Rightarrow> string \<Rightarrow> (error + pickupRequest) \<times> repository" where
  "updatePriority st now pid newPriority note =
     (if \<not> includes_js PRIORITIES (JStr newPriority)
      then (Inl (ValidationError ''Invalid priority level''), st)
      else
        (case PickupRepository_findById st now pid of
           (Inl e, st1) \<Rightarrow> (Inl e, st1)
         | (Inr request, st1) \<Rightarrow>
             if isEmergency request \<and> newPriority \<noteq> ''urgent''
             then (Inl (ValidationError ''Emergency requests must maintain urgent priority''), st1)
             else
               (case PickupRepository_update st1 now pid
                       (emptyUpdate\<lparr>u_priority := Some newPriority,
                          u_statusHistory :=
                            Some (statusHistory request @
                              [\<lparr>hstatus = status request,
                                hnote = Some (''Priority changed to '' @ newPriority @
                                              (if note \<noteq> [] then '': '' @ note else [])),
                                hupdatedAt = now\<rparr>])\<rparr>) of
                  (Inl e, st2) \<Rightarrow> (Inl e, st2)
                | (Inr updated, st2) \<Rightarrow>
                    (Inr updated, st2\<lparr>cache := AList.delete (cacheKey pid) (cache st2)\<rparr>))))"

subsection \<open>Queries\<close>

text \<open>
  A MongoDB query document is a JavaScript object. \<open>{ ...base, ...extra }\<close> keeps the
  place of a key that is already there and takes the later value.
\<close>

definition spread :: "(string \<times> jsval) list \<Rightarrow> (string \<times> jsval) list \<Rightarrow> (string \<times> jsval) list" where
  "spread base extra = foldl (\<lambda>acc kv. AList.update (fst kv) (snd kv) acc) base extra"

definition nearClause :: "jsval \<Rightarrow> jsval \<Rightarrow> jsval" where
  "nearClause coords maxDistance =
     JObj [(''$near'',
            JObj [(''$geometry'', JObj [(''type'', JStr ''Point''), (''coordinates'', coords)]),
                  (''$maxDistance'', maxDistance)])]"

text \<open>A parameter with a default value takes the default when the argument is undefined.\<close>

definition withDefault :: "jsval \<Rightarrow> jsval \<Rightarrow> jsval" where
  "withDefault dflt v = (if v = JUndefined then dflt else v)"

fun arrayLength :: "jsval \<Rightarrow> nat option" where
  "arrayLength (JArr xs) = Some (length xs)"
| "arrayLength v = None"

text \<open>
  \<open>PickupRepository.findNearby\<close>: the result is the criteria of the one \<open>find\<close> that it
  issues; running \<open>$near\<close> is MongoDB's work. \<open>filters\<close> is the caller's object, empty by
  default.
\<close>

definition PickupRepository_findNearby ::
  "jsval \<Rightarrow> jsval \<Rightarrow> (string \<times> jsval) list \<Rightarrow> error + jsval" where
  "PickupRepository_findNearby coords maxDistance filters =
     (if \<not> truthy coords \<or> \<not> isArray coords \<or> arrayLength coords \<noteq> Some 2
      then Inl (ValidationError ''Valid coordinates [longitude, latitude] are required'')
      else Inr (JObj (spread
                  [(''location'', nearClause coords (withDefault (JNum 10000) maxDistance)),
                   (''isDeleted'', JObj [(''$ne'', JBool True)])]
                  filters)))"

text \<open>The static \<open>findNearby\<close> of the schema: no check, \<open>isDeleted: false\<close> written last.\<close>

definition static_findNearby :: "jsval \<Rightarrow> jsval \<Rightarrow> (string \<times> jsval) list \<Rightarrow> jsval" where
  "static_findNearby coords maxDistance filters =
     JObj (AList.update ''isDeleted'' (JBool False)
             (spread [(''location'', nearClause coords (withDefault (JNum 5000) maxDistance))] filters))"

text \<open>
  \<open>findWithFilters\<close> for the one filter that \<open>findByStatus\<close> passes, with the default
  page of ten documents. The order of the page (by priority, then date) is not modelled.
\<close>

definition findWithFilters_status :: "repository \<Rightarrow> jsval \<Rightarrow> pickupRequest list" where
  "findWithFilters_status st statusFilter =
     take 10 (filter (\<lambda>d. \<not> isDeleted d \<and> (\<not> truthy statusFilter \<or> JStr (status d) = statusFilter))
                (map snd (db st)))"

definition findByStatus :: "repository \<Rightarrow> jsval \<Rightarrow> error + pickupRequest list" where
  "findByStatus st statusArg =
     (if \<not> validateStatus statusArg then Inl (ValidationError ''Invalid status'')
      else Inr (findWithFilters_status st statusArg))"

section \<open>The pickup service\<close>

definition MAX_ACTIVE_REQUESTS :: nat where
  "MAX_ACTIVE_REQUESTS = 5"

text \<open>The \<open>catch\<close> clauses of the service: what is rethrown as it is, the rest wrapped.\<close>

definition rethrowValidation :: "string \<Rightarrow> error \<Rightarrow> error" where
  "rethrowValidation msg e = (if isValidationError e then e else InternalError msg (Some e))"

definition rethrowValidationOrNotFound :: "string \<Rightarrow> error \<Rightarrow> error" where
  "rethrowValidationOrNotFound msg e =
     (if isValidationError e \<or> isNotFoundError e then e else InternalError msg (Some e))"

text \<open>
  \<open>addPickupRequest\<close>. The notification that follows a successful create belongs to
  another service and changes nothing here.
\<close>

definition addPickupRequest_body ::
  "repository \<Rightarrow> int \<Rightarrow> string \<Rightarrow> pickupData \<Rightarrow> (error + pickupRequest) \<times> repository" where
  "addPickupRequest_body st now newId data =
     (if \<not> validateObjectId (optStr (d_clinicId data))
      then (Inl (ValidationError ''Invalid clinic ID''), st)
      else if truthy (d_location data) \<and> \<not> validateCoordinates (optProp (d_location data) ''coordinates'')
      then (Inl (ValidationError ''Invalid coordinates''), st)
      else
        (case findByStatus st (JArr [JStr ''pending'', JStr ''assigned'']) of
           Inl e \<Rightarrow> (Inl e, st)
         | Inr docs \<Rightarrow>
             if length docs \<ge> MAX_ACTIVE_REQUESTS
             then (Inl (ValidationError ''Maximum active requests (5) reached''), st)
             else
               PickupRepository_create st now newId
                 (if (case d_emergency data of None \<Rightarrow> False | Some e \<Rightarrow> e_isEmergency e)
                  then data\<lparr>d_priority := Some ''urgent''\<rparr> else data)))"

definition addPickupRequest ::
  "repository \<Rightarrow> int \<Rightarrow> string \<Rightarrow> pickupData \<Rightarrow> (error + pickupRequest) \<times> repository" where
  "addPickupRequest st now newId data =
     (case addPickupRequest_body st now newId data of
        (Inl e, st1) \<Rightarrow> (Inl (rethrowValidation ''Failed to create pickup request'' e), st1)
      | (Inr request, st1) \<Rightarrow> (Inr request, st1))"

definition fetchPickupRequestById ::
  "repository \<Rightarrow> int \<Rightarrow> string \<Rightarrow> (error + pickupRequest) \<times> repository" where
  "fetchPickupRequestById st now pid =
     (case (if \<not> validateObjectId (JStr pid)
            then (Inl (ValidationError ''Invalid pickup request ID''), st)
            else PickupRepository_findById st now pid) of
        (Inl e, st1) \<Rightarrow> (Inl (rethrowValidationOrNotFound ''Failed to fetch pickup request'' e), st1)
      | (Inr request, st1) \<Rightarrow> (Inr request, st1))"

text \<open>\<open>findNearbyPickups\<close>: the \<open>catch\<close> wraps whatever was thrown.\<close>

definition findNearbyPickups :: "jsval \<Rightarrow> jsval \<Rightarrow> error + jsval" where
  "findNearbyPickups location radius =
     (case (if \<not> validateCoordinates (optProp location ''coordinates'')
            then Inl (ValidationError ''Invalid location coordinates'')
            else PickupRepository_findNearby location (withDefault (JNum 5000) radius) []) of
        Inl e \<Rightarrow> Inl (InternalError ''Failed to fetch nearby pickups'' (Some e))
      | Inr query \<Rightarrow> Inr query)"

section \<open>Statistics trends\<close>

subsection \<open>Numbers\<close>

text \<open>
  The counts and volumes of the statistics are JavaScript numbers, IEEE 754 binary64
  values. \<open>Finite m e\<close> is the number \<open>m\<close> times two to the power \<open>e\<close>; a double proper has
  its mantissa below \<open>2^53\<close> and its exponent from -1074 to 971, in the one form that
  \<open>isDouble\<close> describes. Negative zero is not told apart from zero.
\<close>

datatype double = Finite int int | PosInfinity | NegInfinity | NaN

fun isDouble :: "double \<Rightarrow> bool" where
  "isDouble (Finite m e) =
     (if \<bar>m\<bar> < 2 ^ 52 then e = - 1074 else \<bar>m\<bar> < 2 ^ 53 \<and> - 1074 \<le> e \<and> e \<le> 971)"
| "isDouble x = True"

text \<open>The literal \<open>0\<close>.\<close>

definition dzero :: double where
  "dzero = Finite 0 (- 1074)"

text \<open>The number of binary digits of a positive integer.\<close>

function bitLength :: "int \<Rightarrow> int" where
  "bitLength n = (if n \<le> 0 then 0 else 1 + bitLength (n div 2))"
  by pat_completeness auto
termination by (relation "measure nat") auto

declare bitLength.simps [simp del]

text \<open>\<open>n\<close> divided by two to the power \<open>k\<close>, rounded to the nearest integer, a tie to the even one.\<close>

definition roundShift :: "int \<Rightarrow> nat \<Rightarrow> int" where
  "roundShift n k =
     (let q = n div 2 ^ k; r = n mod 2 ^ k
      in if 2 * r > 2 ^ k \<or> (2 * r = 2 ^ k \<and> odd q) then q + 1 else q)"

text \<open>
  The double nearest to \<open>n\<close> times two to the power \<open>e\<close>, for a magnitude \<open>n\<close> and a sign:
  53 significant bits, fewer below the smallest normal exponent, a tie to the even
  mantissa, and an infinity beyond the largest double.
\<close>

definition roundToDouble :: "bool \<Rightarrow> int \<Rightarrow> int \<Rightarrow> double" where
  "roundToDouble negative n e =
     (if n = 0 then dzero
      else
        (let e1 = max (e + bitLength n - 53) (- 1074);
             m = (if e1 \<le> e then n * 2 ^ nat (e - e1) else roundShift n (nat (e1 - e)));
             m2 = (if m = 2 ^ 53 then 2 ^ 52 else m);
             e2 = (if m = 2 ^ 53 then e1 + 1 else e1)
         in if e2 > 971 then (if negative then NegInfinity else PosInfinity)
            else Finite (if negative then - m2 else m2) e2))"

text \<open>
  \<open>x + y\<close> on numbers: the exact sum of two finite numbers, rounded; a zero added to a
  number leaves the number.
\<close>

fun fadd :: "double \<Rightarrow> double \<Rightarrow> double" where
  "fadd NaN y = NaN"
| "fadd x NaN = NaN"
| "fadd PosInfinity NegInfinity = NaN"
| "fadd NegInfinity PosInfinity = NaN"
| "fadd PosInfinity y = PosInfinity"
| "fadd NegInfinity y = NegInfinity"
| "fadd x PosInfinity = PosInfinity"
| "fadd x NegInfinity = NegInfinity"
| "fadd (Finite m1 e1) (Finite m2 e2) =
     (if m1 = 0 then Finite m2 e2
      else if m2 = 0 then Finite m1 e1
      else
        (let e = min e1 e2;
             s = m1 * 2 ^ nat (e1 - e) + m2 * 2 ^ nat (e2 - e)
         in roundToDouble (s < 0) \<bar>s\<bar> e))"

declare fadd.simps [simp del]

text \<open>
  \<open>x / n\<close> for the length \<open>n\<close> of a non-empty array: the quotient is computed to more bits
  than a double has, with one more bit that tells whether anything is left, and rounded.
\<close>

fun fdiv :: "double \<Rightarrow> int \<Rightarrow> double" where
  "fdiv (Finite m e) n =
     (let k = 55 + bitLength n;
          q = (\<bar>m\<bar> * 2 ^ nat k) div n;
          r = (\<bar>m\<bar> * 2 ^ nat k) mod n
      in roundToDouble (m < 0) (2 * q + (if r = 0 then 0 else 1)) (e - k - 1))"
| "fdiv x n = x"

declare fdiv.simps [simp del]

text \<open>The truthiness of a number: zero and NaN are falsy.\<close>

fun truthyNumber :: "double \<Rightarrow> bool" where
  "truthyNumber (Finite m e) = (m \<noteq> 0)"
| "truthyNumber NaN = False"
| "truthyNumber x = True"

text \<open>
  The number that an integer is (rounded, if the integer has more than 53 bits), the
  integer part of a finite number, and the numbers that are whole: the doubles of the
  integers from 0 up to \<open>2^53\<close>, which are exact.
\<close>

definition numberOfInt :: "int \<Rightarrow> double" where
  "numberOfInt n = roundToDouble (n < 0) \<bar>n\<bar> 0"

fun wholeOf :: "double \<Rightarrow> int" where
  "wholeOf (Finite m e) = (if e \<ge> 0 then m * 2 ^ nat e else m div 2 ^ nat (- e))"
| "wholeOf x = 0"

definition isWhole :: "double \<Rightarrow> bool" where
  "isWhole d = (0 \<le> wholeOf d \<and> wholeOf d < 2 ^ 53 \<and> d = numberOfInt (wholeOf d))"

text \<open>The rational number that a finite double is.\<close>

fun valueOf :: "double \<Rightarrow> rat" where
  "valueOf (Finite m e) =
     (if e \<ge> 0 then of_int (m * 2 ^ nat e) else of_int m / of_int (2 ^ nat (- e)))"
| "valueOf x = 0"

fun isFinite :: "double \<Rightarrow> bool" where
  "isFinite (Finite m e) = True"
| "isFinite x = False"

subsection \<open>Dates\<close>

text \<open>
  A JavaScript \<open>Date\<close> is its time value in milliseconds. \<open>new Date(year, monthIndex, day)\<close>
  is computed as the language defines it (a month index outside 0..11 carries into the
  year, a day outside the month carries into the months, a year from 0 to 99 means
  1900 + year), with the server's time zone taken to be UTC; in another time zone the
  dates, and with them the weeks, can differ. What is proved below about the buckets
  holds for any way of computing the dates.
\<close>

definition daysFromCivil :: "int \<Rightarrow> int \<Rightarrow> int \<Rightarrow> int" where
  "daysFromCivil y m d =
     (let y1 = (if m \<le> 2 then y - 1 else y);
          era = y1 div 400;
          yoe = y1 - era * 400;
          doy = (153 * (if m > 2 then m - 3 else m + 9) + 2) div 5 + d - 1;
          doe = yoe * 365 + yoe div 4 - yoe div 100 + doy
      in era * 146097 + doe - 719468)"

definition civilFromDays :: "int \<Rightarrow> int \<times> int \<times> int" where
  "civilFromDays z =
     (let z1 = z + 719468;
          era = z1 div 146097;
          doe = z1 - era * 146097;
          yoe = (doe - doe div 1460 + doe div 36524 - doe div 146096) div 365;
          doy = doe - (365 * yoe + yoe div 4 - yoe div 100);
          mp = (5 * doy + 2) div 153;
          d = doy - (153 * mp + 2) div 5 + 1;
          m = (if mp < 10 then mp + 3 else mp - 9);
          y = yoe + era * 400 + (if m \<le> 2 then 1 else 0)
      in (y, m, d))"

definition msPerDay :: int where
  "msPerDay = 24 * 60 * 60 * 1000"

definition newDate :: "int \<Rightarrow> int \<Rightarrow> int \<Rightarrow> int" where
  "newDate y monthIndex d =
     (let y1 = (if 0 \<le> y \<and> y \<le> 99 then 1900 + y else y);
          ym = y1 + monthIndex div 12;
          mn = monthIndex mod 12
      in (daysFromCivil ym (mn + 1) 1 + d - 1) * msPerDay)"

definition getFullYear :: "int \<Rightarrow> int" where
  "getFullYear t = (case civilFromDays (t div msPerDay) of (y, m, d) \<Rightarrow> y)"

definition getMonth :: "int \<Rightarrow> int" where
  "getMonth t = (case civilFromDays (t div msPerDay) of (y, m, d) \<Rightarrow> m - 1)"

subsection \<open>The trends\<close>

text \<open>
  One group of the time-based aggregation: \<open>_id\<close> is the day, \<open>count\<close> and \<open>totalVolume\<close>
  are numbers and \<open>avgResponseTime\<close> is a number or null.
\<close>

record statId =
  year :: int
  month :: int
  day :: int

record timeStat =
  stat_id :: statId
  count :: double
  totalVolume :: double
  avgResponseTime :: "double option"

definition statDate :: "timeStat \<Rightarrow> int" where
  "statDate stat = newDate (year (stat_id stat)) (month (stat_id stat) - 1) (day (stat_id stat))"

record dailyEntry =
  dy_date :: int
  dy_count :: double
  dy_volume :: double
  dy_avgResponseTime :: "double option"

record weeklyEntry =
  wk_startDate :: int
  wk_endDate :: int
  wk_count :: double
  wk_volume :: double
  wk_avgResponseTime :: "double option"

record monthlyEntry =
  mo_month :: int
  mo_year :: int
  mo_count :: double
  mo_volume :: double
  mo_avgResponseTime :: "double option"

text \<open>\<open>currentWeek\<close> and \<open>currentMonth\<close>.\<close>

record accumulator =
  acc_count :: double
  acc_volume :: double
  acc_responseTime :: "double list"
  acc_days :: "int list"

definition emptyAccumulator :: accumulator where
  "emptyAccumulator = \<lparr>acc_count = dzero, acc_volume = dzero, acc_responseTime = [], acc_days = []\<rparr>"

text \<open>\<open>if (stat.avgResponseTime)\<close>: neither null nor zero nor NaN.\<close>

definition responseTimes :: "timeStat \<Rightarrow> double list" where
  "responseTimes stat =
     (case avgResponseTime stat of None \<Rightarrow> [] | Some r \<Rightarrow> if truthyNumber r then [r] else [])"

text \<open>\<open>xs.length ? xs.reduce((a, b) => a + b) / xs.length : null\<close>.\<close>

definition average :: "double list \<Rightarrow> double option" where
  "average xs =
     (case xs of [] \<Rightarrow> None | x # rest \<Rightarrow> Some (fdiv (foldl fadd x rest) (int (length xs))))"

definition addToAccumulator :: "accumulator \<Rightarrow> timeStat \<Rightarrow> accumulator" where
  "addToAccumulator acc stat =
     \<lparr>acc_count = fadd (acc_count acc) (count stat),
      acc_volume = fadd (acc_volume acc) (totalVolume stat),
      acc_responseTime = acc_responseTime acc @ responseTimes stat,
      acc_days = acc_days acc @ [statDate stat]\<rparr>"

definition startAccumulator :: "timeStat \<Rightarrow> accumulator" where
  "startAccumulator stat =
     \<lparr>acc_count = count stat, acc_volume = totalVolume stat,
      acc_responseTime = responseTimes stat, acc_days = [statDate stat]\<rparr>"

text \<open>
  The entry pushed for a week or a month that has days; nothing for one that has none
  (the test \<open>days.length > 0\<close> after the loop; inside the loop the days are never empty
  where an entry is pushed).
\<close>

definition closeWeek :: "accumulator \<Rightarrow> weeklyEntry list" where
  "closeWeek acc =
     (case acc_days acc of
        [] \<Rightarrow> []
      | first # rest \<Rightarrow>
          [\<lparr>wk_startDate = first, wk_endDate = last (first # rest), wk_count = acc_count acc,
            wk_volume = acc_volume acc, wk_avgResponseTime = average (acc_responseTime acc)\<rparr>])"

definition closeMonth :: "accumulator \<Rightarrow> monthlyEntry list" where
  "closeMonth acc =
     (case acc_days acc of
        [] \<Rightarrow> []
      | first # rest \<Rightarrow>
          [\<lparr>mo_month = getMonth first + 1, mo_year = getFullYear first, mo_count = acc_count acc,
            mo_volume = acc_volume acc, mo_avgResponseTime = average (acc_responseTime acc)\<rparr>])"

record trends =
  daily :: "dailyEntry list"
  weekly :: "weeklyEntry list"
  monthly :: "monthlyEntry list"

text \<open>The state of the \<open>forEach\<close>: the entries pushed so far and the two accumulators.\<close>

record trendState =
  weeklySoFar :: "weeklyEntry list"
  currentWeek :: accumulator
  monthlySoFar :: "monthlyEntry list"
  currentMonth :: accumulator

definition sameWeek :: "accumulator \<Rightarrow> int \<Rightarrow> bool" where
  "sameWeek acc date =
     (case acc_days acc of [] \<Rightarrow> True | first # rest \<Rightarrow> date - first \<le> 7 * 24 * 60 * 60 * 1000)"

definition sameMonth :: "accumulator \<Rightarrow> int \<Rightarrow> bool" where
  "sameMonth acc date =
     (case acc_days acc of
        [] \<Rightarrow> True
      | first # rest \<Rightarrow> getMonth date = getMonth first \<and> getFullYear date = getFullYear first)"

definition trendStep :: "trendState \<Rightarrow> timeStat \<Rightarrow> trendState" where
  "trendStep s stat =
     (let s1 =
            (if sameWeek (currentWeek s) (statDate stat)
             then s\<lparr>currentWeek := addToAccumulator (currentWeek s) stat\<rparr>
             else s\<lparr>weeklySoFar := weeklySoFar s @ closeWeek (currentWeek s),
                    currentWeek := startAccumulator stat\<rparr>)
      in if sameMonth (currentMonth s1) (statDate stat)
         then s1\<lparr>currentMonth := addToAccumulator (currentMonth s1) stat\<rparr>
         else s1\<lparr>monthlySoFar := monthlySoFar s1 @ closeMonth (currentMonth s1),
                 currentMonth := startAccumulator stat\<rparr>)"

definition initialTrendState :: trendState where
  "initialTrendState =
     \<lparr>weeklySoFar = [], currentWeek = emptyAccumulator,
      monthlySoFar = [], currentMonth = emptyAccumulator\<rparr>"

text \<open>The entry of the daily series for one group.\<close>

definition dailyOf :: "timeStat \<Rightarrow> dailyEntry" where
  "dailyOf stat =
     \<lparr>dy_date = statDate stat, dy_count = count stat, dy_volume = totalVolume stat,
      dy_avgResponseTime = avgResponseTime stat\<rparr>"

text \<open>
  \<open>calculateTrends\<close>. \<open>Array.prototype.sort\<close> is stable and the comparator is the
  difference of the dates, so the sort is a stable sort by date.
\<close>

definition calculateTrends :: "timeStat list \<Rightarrow> trends" where
  "calculateTrends timeStats =
     (let sortedStats = sort_key statDate timeStats;
          final = foldl trendStep initialTrendState sortedStats
      in \<lparr>daily = map dailyOf sortedStats,
          weekly = weeklySoFar final @ closeWeek (currentWeek final),
          monthly = monthlySoFar final @ closeMonth (currentMonth final)\<rparr>)"

subsection \<open>Buckets as runs of days\<close>

text \<open>
  The sum of a list of numbers as the program forms it, from \<open>0\<close> and from left to right,
  and the exact sum of the numbers, when all are finite.
\<close>

definition dsum :: "double list \<Rightarrow> double" where
  "dsum xs = foldl fadd dzero xs"

definition exactSum :: "double list \<Rightarrow> rat option" where
  "exactSum xs = (if list_all isFinite xs then Some (sum_list (map valueOf xs)) else None)"

text \<open>
  The weekly and the monthly entry that stand for a run of consecutive days of the sorted
  statistics: the first and last date, respectively the month and year of the first; the
  counts, and the volumes, of the days added as numbers from \<open>0\<close> in the order of the
  days; and the average of the response times that are there.
\<close>

definition weekOf :: "timeStat list \<Rightarrow> weeklyEntry" where
  "weekOf run =
     \<lparr>wk_startDate = statDate (hd run), wk_endDate = statDate (last run),
      wk_count = dsum (map count run),
      wk_volume = dsum (map totalVolume run),
      wk_avgResponseTime = average (concat (map responseTimes run))\<rparr>"

definition monthOf :: "timeStat list \<Rightarrow> monthlyEntry" where
  "monthOf run =
     \<lparr>mo_month = getMonth (statDate (hd run)) + 1, mo_year = getFullYear (statDate (hd run)),
      mo_count = dsum (map count run),
      mo_volume = dsum (map totalVolume run),
      mo_avgResponseTime = average (concat (map responseTimes run))\<rparr>"

text \<open>For the proofs: an accumulator that has taken the days of a run, and a state of the loop.\<close>

definition accumulate :: "timeStat list \<Rightarrow> accumulator" where
  "accumulate run = foldl addToAccumulator emptyAccumulator run"

definition weekState :: "trendState \<Rightarrow> timeStat list list \<Rightarrow> timeStat list \<Rightarrow> bool" where
  "weekState s weeks cur =
     (weeklySoFar s = map weekOf weeks \<and> currentWeek s = accumulate cur \<and> [] \<notin> set weeks)"

definition monthState :: "trendState \<Rightarrow> timeStat list list \<Rightarrow> timeStat list \<Rightarrow> bool" where
  "monthState s months cur =
     (monthlySoFar s = map monthOf months \<and> currentMonth s = accumulate cur \<and> [] \<notin> set months)"

section \<open>Cached copies and sample data\<close>

text \<open>
  The cached copy of a request, if there is one, agrees with the stored document on the
  emergency flag, respectively on the status. The repository deletes the cache entry
  after \<open>update\<close>; the bulk operations write to the collection and leave the entry.
\<close>

definition cachedFlagAgrees :: "repository \<Rightarrow> string \<Rightarrow> bool" where
  "cachedFlagAgrees st pid =
     (case map_of (cache st) (cacheKey pid) of
        None \<Rightarrow> True
      | Some (cached, t) \<Rightarrow>
          (case map_of (db st) pid of
             None \<Rightarrow> True
           | Some d \<Rightarrow> isEmergency cached = isEmergency d))"

definition cachedStatusAgrees :: "repository \<Rightarrow> string \<Rightarrow> bool" where
  "cachedStatusAgrees st pid =
     (case map_of (cache st) (cacheKey pid) of
        None \<Rightarrow> True
      | Some (cached, t) \<Rightarrow>
          (case map_of (db st) pid of
             None \<Rightarrow> True
           | Some d \<Rightarrow> status cached = status d))"

text \<open>Two request ids, a stored request in a given status, and the inputs of the examples.\<close>

definition idA :: string where
  "idA = ''64b000000000000000000a01''"

definition idB :: string where
  "idB = ''64b000000000000000000b02''"

definition samplePickup :: "string \<Rightarrow> pickupRequest" where
  "samplePickup s =
     \<lparr>clinicId = ''64b000000000000000000c01'', collectorId = None, wasteType = ''sharps'',
      volumeKg = 5, priority = ''medium'', isEmergency = False, emergencyReason = None,
      responseDeadline = None, coordinates = [77, 12], status = s,
      statusHistory = [\<lparr>hstatus = ''pending'', hnote = None, hupdatedAt = 0\<rparr>],
      requestedAt = 0, collectedAt = None, cancelledAt = None, isDeleted = False\<rparr>"

definition emergencyPickup :: pickupRequest where
  "emergencyPickup =
     (samplePickup ''pending'')\<lparr>priority := ''urgent'', isEmergency := True,
        emergencyReason := Some ''spill'', responseDeadline := Some 9000\<rparr>"

definition twoRequests :: repository where
  "twoRequests =
     \<lparr>db = [(idA, samplePickup ''pending''), (idB, samplePickup ''collected'')], cache = []\<rparr>"

definition oneAssigned :: repository where
  "oneAssigned = \<lparr>db = [(idA, samplePickup ''assigned'')], cache = []\<rparr>"

definition onePending :: repository where
  "onePending = \<lparr>db = [(idA, samplePickup ''pending'')], cache = []\<rparr>"

definition oneEmergency :: repository where
  "oneEmergency = \<lparr>db = [(idA, emergencyPickup)], cache = []\<rparr>"

definition statusTo :: "string \<Rightarrow> string \<Rightarrow> statusUpdate" where
  "statusTo pid s = \<lparr>su_id = Some pid, su_status = Some s, su_note = None\<rparr>"

definition assignTo :: "string \<Rightarrow> string \<Rightarrow> assignment" where
  "assignTo pid c = \<lparr>as_pickupId = Some pid, as_collectorId = Some c, as_note = None\<rparr>"

text \<open>
  A server that fails no operation and takes the operations in the order of the list, one
  that takes the second of two operations first, and one that fails the first operation.
\<close>

definition inListOrder :: serverRun where
  "inListOrder = \<lparr>taken = [], failing = []\<rparr>"

definition secondFirst :: serverRun where
  "secondFirst = \<lparr>taken = [1], failing = []\<rparr>"

definition firstFails :: serverRun where
  "firstFails = \<lparr>taken = [], failing = [0]\<rparr>"

text \<open>
  The operations that the bulk operations build at time 1000 for request A: to a status,
  and to a collector; the history entry that such an operation pushes; and the state in
  which A, pending, has been read and cached at time 1000.
\<close>

definition pushed :: "string \<Rightarrow> historyEntry" where
  "pushed s = \<lparr>hstatus = s, hnote = Some [], hupdatedAt = 1000\<rparr>"

definition toStatus :: "string \<Rightarrow> updateOne" where
  "toStatus s =
     \<lparr>filter_id = idA, set_status = s, set_collectorId = None, set_lastModifiedAt = 1000,
      push_statusHistory = pushed s\<rparr>"

definition toCollector :: "string \<Rightarrow> updateOne" where
  "toCollector c =
     \<lparr>filter_id = idA, set_status = ''assigned'', set_collectorId = Some c,
      set_lastModifiedAt = 1000, push_statusHistory = pushed ''assigned''\<rparr>"

definition collectorC :: string where
  "collectorC = ''64b000000000000000000d01''"

definition collectorD :: string where
  "collectorD = ''64b000000000000000000d02''"

definition pendingCached :: "pickupRequest cache" where
  "pendingCached = [(cacheKey idA, (samplePickup ''pending'', 1000))]"

definition bothCached :: "pickupRequest cache" where
  "bothCached = [(cacheKey idA, (samplePickup ''pending'', 1000)),
                 (cacheKey idB, (samplePickup ''collected'', 1000))]"

definition sampleData :: pickupData where
  "sampleData =
     \<lparr>d_clinicId = Some ''64b000000000000000000c01'', d_wasteType = Some ''sharps'',
      d_volumeKg = Some 5,
      d_location = JObj [(''type'', JStr ''Point''), (''coordinates'', JArr [JNum 77, JNum 12])],
      d_priority = None, d_emergency = None, d_status = Some ''collected'',
      d_statusHistory = Some [], d_requestedAt = None\<rparr>"

definition emergencyData :: pickupData where
  "emergencyData =
     sampleData\<lparr>d_priority := Some ''low'',
       d_emergency := Some \<lparr>e_isEmergency = True, e_reason = Some ''spill'',
                            e_responseDeadline = Some 9000\<rparr>\<rparr>"

text \<open>The emergency request that \<open>create\<close> stores for \<open>emergencyData\<close> at time 1000.\<close>

definition createdEmergency :: pickupRequest where
  "createdEmergency =
     emergencyPickup
       \<lparr>statusHistory := [\<lparr>hstatus = ''pending'', hnote = None, hupdatedAt = 1000\<rparr>,
                          \<lparr>hstatus = ''pending'', hnote = None, hupdatedAt = 1000\<rparr>],
        requestedAt := 1000\<rparr>"

text \<open>
  The doubles that JavaScript writes as 0.1, 0.2, 0.3, 0.5, 0.6 and 0.6000000000000001, and
  as 1, 2, 3, 5, 7, 12 and 17; the statistics of three days of January 2024, one request
  each, with the volumes 0.1, 0.2 and 0.3; and the same days with two, one and two requests
  and the volumes 5, 7 and 5.
\<close>

definition n1 :: double where
  "n1 = Finite 4503599627370496 (- 52)"

definition n2 :: double where
  "n2 = Finite 4503599627370496 (- 51)"

definition n3 :: double where
  "n3 = Finite 6755399441055744 (- 51)"

definition n5 :: double where
  "n5 = Finite 5629499534213120 (- 50)"

definition n7 :: double where
  "n7 = Finite 7881299347898368 (- 50)"

definition n12 :: double where
  "n12 = Finite 6755399441055744 (- 49)"

definition n17 :: double where
  "n17 = Finite 4785074604081152 (- 48)"

definition d01 :: double where
  "d01 = Finite 7205759403792794 (- 56)"

definition d02 :: double where
  "d02 = Finite 7205759403792794 (- 55)"

definition d03 :: double where
  "d03 = Finite 5404319552844595 (- 54)"

definition d05 :: double where
  "d05 = Finite 4503599627370496 (- 53)"

definition d06 :: double where
  "d06 = Finite 5404319552844595 (- 53)"

definition d06up :: double where
  "d06up = Finite 5404319552844596 (- 53)"

definition dayStat :: "int \<Rightarrow> int \<Rightarrow> int \<Rightarrow> double \<Rightarrow> timeStat" where
  "dayStat y m d v =
     \<lparr>stat_id = \<lparr>year = y, month = m, day = d\<rparr>, count = n1, totalVolume = v,
      avgResponseTime = None\<rparr>"

definition january :: "timeStat list" where
  "january = [dayStat 2024 1 21 d03, dayStat 2024 1 1 d01, dayStat 2024 1 20 d02]"

definition wholeJanuary :: "timeStat list" where
  "wholeJanuary =
     [(dayStat 2024 1 21 n5)\<lparr>count := n2\<rparr>, (dayStat 2024 1 1 n5)\<lparr>count := n2\<rparr>,
      dayStat 2024 1 20 n7]"

section \<open>Proofs\<close>

subsection \<open>The state machine\<close>

text \<open>
  C1. The status state machine is the four-pair table. For any current and new status the
  schema method returns normally exactly for pending to assigned, pending to cancelled,
  assigned to collected and assigned to cancelled, and throws for every other pair; the
  standalone validator returns a valid result exactly for the same four pairs and an
  invalid result for every other pair (it throws where the current status names a
  property of \<open>Object.prototype\<close>); and every transition out of collected or cancelled
  throws, respectively is reported invalid.
\<close>

theorem validateStatusTransition_table:
  "(validateStatusTransition cur new = Inr ()) = allowedTransition cur new \<and>
   (\<exists>e. validateStatusTransition cur new = Inl e) = (\<not> allowedTransition cur new) \<and>
   (\<exists>r. validateStatusTransitionResult cur new = Inr r \<and> isValid r) = allowedTransition cur new \<and>
   (\<exists>r. validateStatusTransitionResult cur new = Inr r \<and> \<not> isValid r) =
     (\<not> allowedTransition cur new \<and> cur \<notin> set objectPrototypeKeys) \<and>
   (\<exists>e. validateStatusTransition ''collected'' new = Inl e) \<and>
   (\<exists>e. validateStatusTransition ''cancelled'' new = Inl e) \<and>
   (\<exists>r. validateStatusTransitionResult ''collected'' new = Inr r \<and> \<not> isValid r) \<and>
   (\<exists>r. validateStatusTransitionResult ''cancelled'' new = Inr r \<and> \<not> isValid r)"
proof -
  have a: "(validateStatusTransition cur new = Inr ()) = allowedTransition cur new"
    by (auto simp: validateStatusTransition_def validTransitions_def allowedTransition_def
        split: property.splits if_splits)
  have b: "(\<exists>e. validateStatusTransition cur new = Inl e) = (\<not> allowedTransition cur new)"
    using a by (cases "validateStatusTransition cur new") auto
  have c: "(\<exists>r. validateStatusTransitionResult cur new = Inr r \<and> isValid r) = allowedTransition cur new"
    by (auto simp: validateStatusTransitionResult_def validTransitions_def allowedTransition_def
        createValidationResult_def split: property.splits if_splits)
  have d: "(\<exists>e. validateStatusTransition ''collected'' new = Inl e) \<and>
           (\<exists>e. validateStatusTransition ''cancelled'' new = Inl e)"
    by (simp add: validateStatusTransition_def validTransitions_def)
  have e: "(\<exists>r. validateStatusTransitionResult ''collected'' new = Inr r \<and> \<not> isValid r) \<and>
           (\<exists>r. validateStatusTransitionResult ''cancelled'' new = Inr r \<and> \<not> isValid r)"
    by (simp add: validateStatusTransitionResult_def validTransitions_def createValidationResult_def)
  have f: "(\<exists>r. validateStatusTransitionResult cur new = Inr r \<and> \<not> isValid r) =
     (\<not> allowedTransition cur new \<and> cur \<notin> set objectPrototypeKeys)"
    by (auto simp: validateStatusTransitionResult_def validTransitions_def allowedTransition_def
        createValidationResult_def objectPrototypeKeys_def split: property.splits if_splits)
  from a b c d e f show ?thesis by blast
qed

subsection \<open>The cache\<close>

lemma length_delete_le: "length (AList.delete k c) \<le> length c"
  by (simp add: AList.delete_eq)

lemma length_deleteOldest: "c \<noteq> [] \<Longrightarrow> length (deleteOldest c) < length c"
  by (cases c) (auto simp: AList.delete_eq less_Suc_eq_le)

lemma length_update_le: "length (AList.update k v c) \<le> Suc (length c)"
  by (induction c) auto

lemma setCacheValue_bound:
  "length c \<le> MAX_CACHE_SIZE \<Longrightarrow> length (setCacheValue c now key v) \<le> MAX_CACHE_SIZE"
proof (cases "length c \<ge> MAX_CACHE_SIZE")
  case True
  assume "length c \<le> MAX_CACHE_SIZE"
  from True have "c \<noteq> []" by (auto simp: MAX_CACHE_SIZE_def)
  then have "length (deleteOldest c) < length c" by (rule length_deleteOldest)
  moreover have "length (AList.update key (v, now) (deleteOldest c)) \<le> Suc (length (deleteOldest c))"
    by (rule length_update_le)
  ultimately show ?thesis using True \<open>length c \<le> MAX_CACHE_SIZE\<close>
    by (simp add: setCacheValue_def)
next
  case False
  have "length (AList.update key (v, now) c) \<le> Suc (length c)" by (rule length_update_le)
  with False show ?thesis by (simp add: setCacheValue_def)
qed

lemma getCacheValue_bound:
  "length (snd (getCacheValue c now key)) \<le> length c"
  by (auto simp: getCacheValue_def length_delete_le split: option.splits)

lemma cacheStep_bound:
  "length c \<le> MAX_CACHE_SIZE \<Longrightarrow> length (cacheStep c call) \<le> MAX_CACHE_SIZE"
  by (cases call) (auto intro: setCacheValue_bound order_trans[OF getCacheValue_bound])

lemma distinct_deleteOldest: "distinct (map fst c) \<Longrightarrow> distinct (map fst (deleteOldest c))"
proof (cases c)
  case Nil
  then show ?thesis by simp
next
  case (Cons p rest)
  assume "distinct (map fst c)"
  then have "distinct (map fst (AList.delete (fst p) c))" by (rule distinct_delete)
  with Cons show ?thesis by (cases p) simp
qed

lemma setCacheValue_distinct:
  "distinct (map fst c) \<Longrightarrow> distinct (map fst (setCacheValue c now key v))"
  by (simp add: setCacheValue_def distinct_update distinct_deleteOldest)

lemma getCacheValue_distinct:
  "distinct (map fst c) \<Longrightarrow> distinct (map fst (snd (getCacheValue c now key)))"
  by (auto simp: getCacheValue_def distinct_delete split: option.splits)

lemma cacheStep_distinct:
  "distinct (map fst c) \<Longrightarrow> distinct (map fst (cacheStep c call))"
  by (cases call) (auto intro: setCacheValue_distinct getCacheValue_distinct)

lemma runCache_invariant:
  "length c \<le> MAX_CACHE_SIZE \<Longrightarrow> distinct (map fst c) \<Longrightarrow>
   length (runCache c calls) \<le> MAX_CACHE_SIZE \<and> distinct (map fst (runCache c calls))"
  unfolding runCache_def
  by (induction calls arbitrary: c) (auto intro: cacheStep_bound cacheStep_distinct)

lemma setCacheValue_evicts:
  "length c \<ge> MAX_CACHE_SIZE \<Longrightarrow> distinct (map fst c) \<Longrightarrow> key \<noteq> fst (hd c) \<Longrightarrow>
   map_of (setCacheValue c now key v) (fst (hd c)) = None"
  apply (cases c)
   apply (simp add: MAX_CACHE_SIZE_def)
  apply (auto simp: setCacheValue_def update_conv' delete_conv')
  done

lemma setCacheValue_stores:
  "map_of (setCacheValue c now key v) key = Some (v, now)"
  by (simp add: setCacheValue_def update_conv')

lemma getCacheValue_expired:
  "map_of c key = Some (v, t) \<Longrightarrow> now - t > CACHE_TTL \<Longrightarrow>
   fst (getCacheValue c now key) = None \<and> map_of (snd (getCacheValue c now key)) key = None"
  by (simp add: getCacheValue_def delete_conv')

lemma getCacheValue_fresh:
  "map_of c key = Some (v, t) \<Longrightarrow> now - t \<le> CACHE_TTL \<Longrightarrow>
   getCacheValue c now key = (Some v, c)"
  by (simp add: getCacheValue_def)

text \<open>
  C4. The cache is a bounded map: after any sequence of \<open>setCacheValue\<close> and
  \<open>getCacheValue\<close> calls on a new cache it holds at most \<open>MAX_CACHE_SIZE\<close> = 1000 entries
  (under distinct keys); \<open>setCacheValue\<close> on a cache of at least 1000 entries deletes the
  first key in insertion order and then sets the new entry; \<open>getCacheValue\<close> on an entry
  older than \<open>CACHE_TTL\<close> = five minutes deletes it and misses.
\<close>

theorem cache_bounded:
  "length (runCache [] calls) \<le> MAX_CACHE_SIZE \<and> MAX_CACHE_SIZE = 1000 \<and>
   distinct (map fst (runCache [] calls)) \<and>
   (length c \<ge> MAX_CACHE_SIZE \<longrightarrow>
      setCacheValue c now key v = AList.update key (v, now) (AList.delete (fst (hd c)) c)) \<and>
   map_of (setCacheValue c now key v) key = Some (v, now) \<and>
   CACHE_TTL = 5 * 60 * 1000 \<and>
   (map_of c key = Some (w, t) \<and> now - t > CACHE_TTL \<longrightarrow>
      getCacheValue c now key = (None, AList.delete key c))"
proof -
  have inv: "length (runCache [] calls) \<le> MAX_CACHE_SIZE \<and> distinct (map fst (runCache [] calls))"
    by (rule runCache_invariant) simp_all
  have evict: "length c \<ge> MAX_CACHE_SIZE \<longrightarrow>
      setCacheValue c now key v = AList.update key (v, now) (AList.delete (fst (hd c)) c)"
    by (cases c) (auto simp: setCacheValue_def MAX_CACHE_SIZE_def)
  have ttl: "map_of c key = Some (w, t) \<and> now - t > CACHE_TTL \<longrightarrow>
      getCacheValue c now key = (None, AList.delete key c)"
    by (simp add: getCacheValue_def)
  from inv evict ttl show ?thesis
    by (simp add: setCacheValue_stores MAX_CACHE_SIZE_def CACHE_TTL_def)
qed

theorem cache_bounded_witness:
  "length (map (\<lambda>n. (replicate n CHR ''k'', ((), 0::int))) [0..<1000]) \<ge> MAX_CACHE_SIZE \<and>
   map_of (map (\<lambda>n. (replicate n CHR ''k'', ((), 0::int))) [0..<1000]) [] = Some ((), 0) \<and>
   (300001::int) - 0 > CACHE_TTL \<and>
   length (runCache [] [SetCall 0 ''a'' (), GetCall 1 ''a'']) \<le> MAX_CACHE_SIZE \<and>
   setCacheValue (map (\<lambda>n. (replicate n CHR ''k'', ((), 0::int))) [0..<1000]) 300001 [] () =
     AList.update [] ((), 300001)
       (AList.delete (fst (hd (map (\<lambda>n. (replicate n CHR ''k'', ((), 0::int))) [0..<1000])))
          (map (\<lambda>n. (replicate n CHR ''k'', ((), 0::int))) [0..<1000])) \<and>
   getCacheValue (map (\<lambda>n. (replicate n CHR ''k'', ((), 0::int))) [0..<1000]) 300001 [] =
     (None, AList.delete [] (map (\<lambda>n. (replicate n CHR ''k'', ((), 0::int))) [0..<1000]))"
proof -
  let ?c = "map (\<lambda>n. (replicate n CHR ''k'', ((), 0::int))) [0..<1000]"
  have h1: "length ?c \<ge> MAX_CACHE_SIZE" by (simp add: MAX_CACHE_SIZE_def)
  have "[0..<1000] = 0 # [Suc 0..<1000]" by (subst upt_rec) simp
  then have h2: "map_of ?c [] = Some ((), 0)" by simp
  have h3: "(300001::int) - 0 > CACHE_TTL" by (simp add: CACHE_TTL_def)
  from h1 h2 h3
    cache_bounded [of "[SetCall 0 ''a'' (), GetCall 1 ''a'']" ?c 300001 "[]" "()" "()" 0]
  show ?thesis by blast
qed


subsection \<open>Trends\<close>

lemma fadd_dzero: "fadd dzero v = v"
  by (cases v) (simp_all add: dzero_def fadd.simps)

lemma foldl_addToAccumulator:
  "acc_count (foldl addToAccumulator a run) = foldl fadd (acc_count a) (map count run) \<and>
   acc_volume (foldl addToAccumulator a run) = foldl fadd (acc_volume a) (map totalVolume run) \<and>
   acc_responseTime (foldl addToAccumulator a run) =
     acc_responseTime a @ concat (map responseTimes run) \<and>
   acc_days (foldl addToAccumulator a run) = acc_days a @ map statDate run"
  by (induction run arbitrary: a) (simp_all add: addToAccumulator_def)

lemma accumulate_fields:
  "acc_count (accumulate run) = dsum (map count run)"
  "acc_volume (accumulate run) = dsum (map totalVolume run)"
  "acc_responseTime (accumulate run) = concat (map responseTimes run)"
  "acc_days (accumulate run) = map statDate run"
  using foldl_addToAccumulator[of emptyAccumulator run]
  by (simp_all add: accumulate_def dsum_def emptyAccumulator_def)

lemma startAccumulator_accumulate: "startAccumulator stat = accumulate [stat]"
  by (simp add: startAccumulator_def accumulate_def addToAccumulator_def emptyAccumulator_def
      fadd_dzero)

lemma addToAccumulator_accumulate: "addToAccumulator (accumulate run) stat = accumulate (run @ [stat])"
  by (simp add: accumulate_def)

lemma closeWeek_accumulate: "closeWeek (accumulate run) = (if run = [] then [] else [weekOf run])"
proof (cases run)
  case Nil
  then show ?thesis by (simp add: closeWeek_def accumulate_fields)
next
  case (Cons x xs)
  have "last (statDate x # map statDate xs) = statDate (last (x # xs))"
    using last_map[of "x # xs" statDate] by simp
  with Cons show ?thesis
    by (simp add: closeWeek_def accumulate_fields weekOf_def)
qed

lemma closeMonth_accumulate: "closeMonth (accumulate run) = (if run = [] then [] else [monthOf run])"
  by (cases run) (simp_all add: closeMonth_def accumulate_fields monthOf_def)

lemma sameWeek_accumulate_Nil: "sameWeek (accumulate []) date"
  by (simp add: sameWeek_def accumulate_fields)

lemma sameMonth_accumulate_Nil: "sameMonth (accumulate []) date"
  by (simp add: sameMonth_def accumulate_fields)

lemma trendStep_week:
  "weeklySoFar (trendStep s stat) =
     (if sameWeek (currentWeek s) (statDate stat) then weeklySoFar s
      else weeklySoFar s @ closeWeek (currentWeek s))"
  "currentWeek (trendStep s stat) =
     (if sameWeek (currentWeek s) (statDate stat) then addToAccumulator (currentWeek s) stat
      else startAccumulator stat)"
  by (simp_all add: trendStep_def Let_def)

lemma trendStep_month:
  "monthlySoFar (trendStep s stat) =
     (if sameMonth (currentMonth s) (statDate stat) then monthlySoFar s
      else monthlySoFar s @ closeMonth (currentMonth s))"
  "currentMonth (trendStep s stat) =
     (if sameMonth (currentMonth s) (statDate stat) then addToAccumulator (currentMonth s) stat
      else startAccumulator stat)"
  by (simp_all add: trendStep_def Let_def)

lemma trendStep_weekState:
  assumes "weekState s weeks cur"
  shows "\<exists>weeks' cur'. weekState (trendStep s stat) weeks' cur' \<and>
           concat weeks' @ cur' = concat weeks @ cur @ [stat]"
proof (cases "sameWeek (currentWeek s) (statDate stat)")
  case True
  with assms have "weekState (trendStep s stat) weeks (cur @ [stat])"
    by (simp add: weekState_def trendStep_week addToAccumulator_accumulate)
  then show ?thesis by blast
next
  case False
  with assms have ne: "cur \<noteq> []"
    using sameWeek_accumulate_Nil by (auto simp: weekState_def)
  with False assms have "weekState (trendStep s stat) (weeks @ [cur]) [stat]"
    by (simp add: weekState_def trendStep_week closeWeek_accumulate startAccumulator_accumulate)
  then show ?thesis by fastforce
qed

lemma trendStep_monthState:
  assumes "monthState s months cur"
  shows "\<exists>months' cur'. monthState (trendStep s stat) months' cur' \<and>
           concat months' @ cur' = concat months @ cur @ [stat]"
proof (cases "sameMonth (currentMonth s) (statDate stat)")
  case True
  with assms have "monthState (trendStep s stat) months (cur @ [stat])"
    by (simp add: monthState_def trendStep_month addToAccumulator_accumulate)
  then show ?thesis by blast
next
  case False
  with assms have ne: "cur \<noteq> []"
    using sameMonth_accumulate_Nil by (auto simp: monthState_def)
  with False assms have "monthState (trendStep s stat) (months @ [cur]) [stat]"
    by (simp add: monthState_def trendStep_month closeMonth_accumulate startAccumulator_accumulate)
  then show ?thesis by fastforce
qed

lemma foldl_trendStep_weekState:
  "weekState s weeks cur \<Longrightarrow>
   \<exists>weeks' cur'. weekState (foldl trendStep s stats) weeks' cur' \<and>
      concat weeks' @ cur' = concat weeks @ cur @ stats"
proof (induction stats arbitrary: s weeks cur)
  case Nil
  then show ?case by auto
next
  case (Cons stat stats)
  from trendStep_weekState[OF Cons.prems, of stat] obtain weeks1 cur1 where
    s1: "weekState (trendStep s stat) weeks1 cur1" and
    c1: "concat weeks1 @ cur1 = concat weeks @ cur @ [stat]" by blast
  from Cons.IH[OF s1] obtain weeks2 cur2 where
    s2: "weekState (foldl trendStep (trendStep s stat) stats) weeks2 cur2" and
    c2: "concat weeks2 @ cur2 = concat weeks1 @ cur1 @ stats" by blast
  from c1 c2 have "concat weeks2 @ cur2 = concat weeks @ cur @ stat # stats" by simp
  with s2 show ?case by auto
qed

lemma foldl_trendStep_monthState:
  "monthState s months cur \<Longrightarrow>
   \<exists>months' cur'. monthState (foldl trendStep s stats) months' cur' \<and>
      concat months' @ cur' = concat months @ cur @ stats"
proof (induction stats arbitrary: s months cur)
  case Nil
  then show ?case by auto
next
  case (Cons stat stats)
  from trendStep_monthState[OF Cons.prems, of stat] obtain months1 cur1 where
    s1: "monthState (trendStep s stat) months1 cur1" and
    c1: "concat months1 @ cur1 = concat months @ cur @ [stat]" by blast
  from Cons.IH[OF s1] obtain months2 cur2 where
    s2: "monthState (foldl trendStep (trendStep s stat) stats) months2 cur2" and
    c2: "concat months2 @ cur2 = concat months1 @ cur1 @ stats" by blast
  from c1 c2 have "concat months2 @ cur2 = concat months @ cur @ stat # stats" by simp
  with s2 show ?case by auto
qed

text \<open>
  The weekly entries, and the monthly entries, are those of the runs of a division of the
  sorted statistics into consecutive non-empty runs.
\<close>

lemma weekly_runs:
  "\<exists>weeks. concat weeks = stats \<and> [] \<notin> set weeks \<and>
     weeklySoFar (foldl trendStep initialTrendState stats) @
       closeWeek (currentWeek (foldl trendStep initialTrendState stats)) = map weekOf weeks"
proof -
  have "weekState initialTrendState [] []"
    by (simp add: weekState_def initialTrendState_def accumulate_def)
  from foldl_trendStep_weekState[OF this, of stats] obtain weeks cur where
    s: "weekState (foldl trendStep initialTrendState stats) weeks cur" and
    c: "concat weeks @ cur = stats" by auto
  show ?thesis
  proof (cases "cur = []")
    case True
    with s c show ?thesis
      by (intro exI[of _ weeks]) (simp add: weekState_def closeWeek_accumulate)
  next
    case False
    with s c show ?thesis
      by (intro exI[of _ "weeks @ [cur]"]) (simp add: weekState_def closeWeek_accumulate)
  qed
qed

lemma monthly_runs:
  "\<exists>months. concat months = stats \<and> [] \<notin> set months \<and>
     monthlySoFar (foldl trendStep initialTrendState stats) @
       closeMonth (currentMonth (foldl trendStep initialTrendState stats)) = map monthOf months"
proof -
  have "monthState initialTrendState [] []"
    by (simp add: monthState_def initialTrendState_def accumulate_def)
  from foldl_trendStep_monthState[OF this, of stats] obtain months cur where
    s: "monthState (foldl trendStep initialTrendState stats) months cur" and
    c: "concat months @ cur = stats" by auto
  show ?thesis
  proof (cases "cur = []")
    case True
    with s c show ?thesis
      by (intro exI[of _ months]) (simp add: monthState_def closeMonth_accumulate)
  next
    case False
    with s c show ?thesis
      by (intro exI[of _ "months @ [cur]"]) (simp add: monthState_def closeMonth_accumulate)
  qed
qed

lemma count_list_insort_key: "count_list (insort_key f a xs) x = count_list (a # xs) x"
  by (induction xs) auto

lemma count_list_sort_key: "count_list (sort_key f xs) x = count_list xs x"
  by (induction xs) (simp_all add: count_list_insort_key)

lemma sum_insort_key:
  fixes g :: "'a \<Rightarrow> 'b::comm_monoid_add"
  shows "sum_list (map g (insort_key f x xs)) = g x + sum_list (map g xs)"
  by (induction xs) (auto simp: add.left_commute)

lemma sum_sort_key:
  fixes g :: "'a \<Rightarrow> 'b::comm_monoid_add"
  shows "sum_list (map g (sort_key f xs)) = sum_list (map g xs)"
  by (induction xs) (auto simp: sum_insort_key)

subsection \<open>Whole numbers add exactly\<close>

lemma bitLength_nonneg: "0 \<le> bitLength n"
  by (induction n rule: bitLength.induct) (subst bitLength.simps, simp)

lemma bitLength_zero: "bitLength 0 = 0"
  by (simp add: bitLength.simps)

lemma bitLength_double: "0 < n \<Longrightarrow> bitLength (2 * n) = 1 + bitLength n"
  by (subst bitLength.simps) simp

lemma bitLength_shift: "0 < n \<Longrightarrow> bitLength (n * 2 ^ k) = bitLength n + int k"
proof (induction k)
  case 0
  show ?case by simp
next
  case (Suc k)
  have e: "n * 2 ^ Suc k = 2 * (n * 2 ^ k)" by simp
  have "0 < n * 2 ^ k" using Suc.prems by simp
  from bitLength_double[OF this] Suc.IH[OF Suc.prems] show ?case unfolding e by simp
qed

lemma bitLength_upper: "0 \<le> n \<Longrightarrow> n < 2 ^ nat (bitLength n)"
proof (induction n rule: bitLength.induct)
  case (1 n)
  show ?case
  proof (cases "n \<le> 0")
    case True
    with 1 show ?thesis by (simp add: bitLength.simps)
  next
    case False
    then have pos: "0 < n" by simp
    have ih: "n div 2 < 2 ^ nat (bitLength (n div 2))" using 1 False by simp
    have b: "bitLength n = 1 + bitLength (n div 2)" using False by (subst bitLength.simps) simp
    have "nat (bitLength n) = Suc (nat (bitLength (n div 2)))"
      using b bitLength_nonneg[of "n div 2"] by simp
    moreover have "n < 2 * 2 ^ nat (bitLength (n div 2))" using ih by linarith
    ultimately show ?thesis by simp
  qed
qed

lemma bitLength_le: "0 \<le> n \<Longrightarrow> n < 2 ^ k \<Longrightarrow> bitLength n \<le> int k"
proof (induction k arbitrary: n)
  case 0
  then have "n = 0" by simp
  then show ?case by (simp add: bitLength_zero)
next
  case (Suc k)
  show ?case
  proof (cases "n \<le> 0")
    case True
    then show ?thesis by (simp add: bitLength.simps)
  next
    case False
    have "n div 2 < 2 ^ k" using Suc.prems by simp
    moreover have "0 \<le> n div 2" using Suc.prems by simp
    ultimately have "bitLength (n div 2) \<le> int k" by (rule Suc.IH[rotated])
    moreover have "bitLength n = 1 + bitLength (n div 2)" using False by (subst bitLength.simps) simp
    ultimately show ?thesis by simp
  qed
qed

lemma roundShift_exact: "roundShift (n * 2 ^ k) k = n"
  by (simp add: roundShift_def Let_def)

lemma roundShift_scale: "roundShift (n * 2 ^ k) (j + k) = roundShift n j"
proof -
  have q: "(n * 2 ^ k) div (2 ^ j * 2 ^ k) = n div 2 ^ j"
    by simp
  have r: "(n * 2 ^ k) mod (2 ^ j * 2 ^ k) = (n mod 2 ^ j) * 2 ^ k"
    by (simp add: mult_mod_left)
  have p: "(2::int) ^ (j + k) = 2 ^ j * 2 ^ k" by (simp add: power_add)
  have c1: "(2 * ((n mod 2 ^ j) * 2 ^ k) > (2::int) ^ j * 2 ^ k) = (2 * (n mod 2 ^ j) > 2 ^ j)"
    using mult_less_cancel_right[of "2 ^ j" "2 ^ k" "2 * (n mod 2 ^ j)"] by (simp add: mult.assoc)
  have c2: "(2 * ((n mod 2 ^ j) * 2 ^ k) = (2::int) ^ j * 2 ^ k) = (2 * (n mod 2 ^ j) = 2 ^ j)"
    using mult_cancel_right[of "2 * (n mod 2 ^ j)" "2 ^ k" "2 ^ j"] by (simp add: mult.assoc)
  show ?thesis
    unfolding roundShift_def Let_def q r p c1 c2 ..
qed

text \<open>Rounding depends on the number only, not on how it is written.\<close>

lemma roundToDouble_scale:
  assumes "0 < n"
  shows "roundToDouble neg (n * 2 ^ k) (e - int k) = roundToDouble neg n e"
proof -
  let ?e1 = "max (e + bitLength n - 53) (- 1074)"
  have l: "e - int k + bitLength (n * 2 ^ k) - 53 = e + bitLength n - 53"
    using bitLength_shift[OF assms, of k] by simp
  have m: "(if ?e1 \<le> e - int k then (n * 2 ^ k) * 2 ^ nat (e - int k - ?e1)
            else roundShift (n * 2 ^ k) (nat (?e1 - (e - int k)))) =
           (if ?e1 \<le> e then n * 2 ^ nat (e - ?e1) else roundShift n (nat (?e1 - e)))"
  proof (cases "?e1 \<le> e - int k")
    case True
    then have le: "?e1 \<le> e" by linarith
    have "nat (e - ?e1) = k + nat (e - int k - ?e1)" using True by linarith
    then have "(2::int) ^ nat (e - ?e1) = 2 ^ k * 2 ^ nat (e - int k - ?e1)"
      by (simp only: power_add)
    then have x: "(n * 2 ^ k) * 2 ^ nat (e - int k - ?e1) = n * 2 ^ nat (e - ?e1)"
      by (simp only: mult.assoc)
    show ?thesis using True le x by (simp only: if_True)
  next
    case False
    show ?thesis
    proof (cases "?e1 \<le> e")
      case True
      let ?d = "nat (e - ?e1)"
      have k: "k = nat (?e1 - (e - int k)) + ?d" using True False by linarith
      have "roundShift (n * 2 ^ k) (nat (?e1 - (e - int k))) =
            roundShift ((n * 2 ^ ?d) * 2 ^ nat (?e1 - (e - int k))) (nat (?e1 - (e - int k)))"
        by (subst k) (simp add: power_add mult.assoc mult.commute)
      also have "\<dots> = n * 2 ^ ?d" by (rule roundShift_exact)
      finally have x: "roundShift (n * 2 ^ k) (nat (?e1 - (e - int k))) = n * 2 ^ nat (e - ?e1)" .
      show ?thesis using True False x by (simp only: if_True if_False)
    next
      case f2: False
      have "nat (?e1 - (e - int k)) = nat (?e1 - e) + k" using f2 by linarith
      then have x: "roundShift (n * 2 ^ k) (nat (?e1 - (e - int k))) = roundShift n (nat (?e1 - e))"
        using roundShift_scale[of n k "nat (?e1 - e)"] by simp
      show ?thesis using False f2 x by (simp only: if_False)
    qed
  qed
  have nz: "n * 2 ^ k \<noteq> 0" "n \<noteq> 0" using assms by simp_all
  show ?thesis
    unfolding roundToDouble_def Let_def l using nz m by simp
qed

text \<open>The double of a positive integer below \<open>2^53\<close>.\<close>

lemma numberOfInt_pos:
  assumes "0 < n" "n < 2 ^ 53"
  shows "numberOfInt n = Finite (n * 2 ^ nat (53 - bitLength n)) (bitLength n - 53)"
proof -
  let ?L = "bitLength n"
  have le: "?L \<le> 53" using bitLength_le[of n 53] assms by simp
  have ge: "0 \<le> ?L" by (rule bitLength_nonneg)
  have e1: "max (?L - 53) (- 1074) = ?L - 53" using ge by simp
  have up: "n < 2 ^ nat ?L" using bitLength_upper[of n] assms by simp
  have "n * 2 ^ nat (53 - ?L) < 2 ^ nat ?L * 2 ^ nat (53 - ?L)" using up by simp
  also have "\<dots> = 2 ^ (nat ?L + nat (53 - ?L))" by (simp add: power_add)
  also have "nat ?L + nat (53 - ?L) = 53" using le ge by simp
  finally have lt: "n * 2 ^ nat (53 - ?L) < 2 ^ 53" .
  then have ne: "n * 2 ^ nat (53 - ?L) \<noteq> 2 ^ 53" by simp
  have sh: "nat (- (?L - 53)) = nat (53 - ?L)" by simp
  show ?thesis
    unfolding numberOfInt_def roundToDouble_def Let_def
    using assms le ne by (simp add: e1 sh)
qed

lemma numberOfInt_zero: "numberOfInt 0 = dzero"
  by (simp add: numberOfInt_def roundToDouble_def)

lemma wholeOf_numberOfInt: "0 \<le> n \<Longrightarrow> n < 2 ^ 53 \<Longrightarrow> wholeOf (numberOfInt n) = n"
proof (cases "n = 0")
  case True
  then show ?thesis by (simp add: numberOfInt_zero dzero_def)
next
  case False
  assume "0 \<le> n" "n < 2 ^ 53"
  with False have p: "0 < n" by simp
  have le: "bitLength n \<le> 53" using bitLength_le[of n 53] \<open>0 \<le> n\<close> \<open>n < 2 ^ 53\<close> by simp
  have "nat (- (bitLength n - 53)) = nat (53 - bitLength n)" by simp
  then show ?thesis
    using numberOfInt_pos[OF p \<open>n < 2 ^ 53\<close>] le by (auto simp: not_le)
qed

lemma isWhole_numberOfInt: "0 \<le> n \<Longrightarrow> n < 2 ^ 53 \<Longrightarrow> isWhole (numberOfInt n)"
  by (simp add: isWhole_def wholeOf_numberOfInt)

lemma fadd_numberOfInt:
  assumes a: "0 \<le> a" "a < 2 ^ 53" and b: "0 \<le> b" "b < 2 ^ 53"
  shows "fadd (numberOfInt a) (numberOfInt b) = numberOfInt (a + b)"
proof (cases "a = 0 \<or> b = 0")
  case True
  then show ?thesis
  proof
    assume "a = 0"
    then show ?thesis by (simp add: numberOfInt_zero fadd_dzero)
  next
    assume z: "b = 0"
    show ?thesis
    proof (cases "a = 0")
      case True
      with z show ?thesis by (simp add: numberOfInt_zero fadd_dzero)
    next
      case False
      with a have pa: "0 < a" by simp
      have "fadd (Finite m e) dzero = Finite m e" if "m \<noteq> 0" for m e
        using that by (simp add: dzero_def fadd.simps)
      moreover have "a * 2 ^ nat (53 - bitLength a) \<noteq> 0" using pa by simp
      ultimately have "fadd (numberOfInt a) dzero = numberOfInt a"
        unfolding numberOfInt_pos[OF pa a(2)] by blast
      with z show ?thesis by (simp add: numberOfInt_zero)
    qed
  qed
next
  case False
  with a b have pa: "0 < a" and pb: "0 < b" by simp_all
  let ?ea = "bitLength a - 53" and ?eb = "bitLength b - 53"
  let ?ma = "a * 2 ^ nat (53 - bitLength a)" and ?mb = "b * 2 ^ nat (53 - bitLength b)"
  have la: "bitLength a \<le> 53" using bitLength_le[of a 53] a by simp
  have lb: "bitLength b \<le> 53" using bitLength_le[of b 53] b by simp
  let ?e = "min ?ea ?eb"
  let ?k = "nat (- ?e)"
  have ek: "?e = 0 - int ?k" using la lb by (auto simp: min_def)
  have sa: "?ma * 2 ^ nat (?ea - ?e) = a * 2 ^ ?k"
  proof -
    have "nat (53 - bitLength a) + nat (?ea - ?e) = ?k" using la lb by (auto simp: min_def)
    then have "(2::int) ^ nat (53 - bitLength a) * 2 ^ nat (?ea - ?e) = 2 ^ ?k"
      by (simp add: power_add[symmetric])
    then show ?thesis by (simp add: mult.assoc)
  qed
  have sb: "?mb * 2 ^ nat (?eb - ?e) = b * 2 ^ ?k"
  proof -
    have "nat (53 - bitLength b) + nat (?eb - ?e) = ?k" using la lb by (auto simp: min_def)
    then have "(2::int) ^ nat (53 - bitLength b) * 2 ^ nat (?eb - ?e) = 2 ^ ?k"
      by (simp add: power_add[symmetric])
    then show ?thesis by (simp add: mult.assoc)
  qed
  have s: "?ma * 2 ^ nat (?ea - ?e) + ?mb * 2 ^ nat (?eb - ?e) = (a + b) * 2 ^ ?k"
    unfolding sa sb by (simp add: distrib_right)
  have sp: "0 < (a + b) * 2 ^ ?k" using pa pb by simp
  have nz: "?ma \<noteq> 0" "?mb \<noteq> 0" using pa pb by simp_all
  have "fadd (Finite ?ma ?ea) (Finite ?mb ?eb) =
        roundToDouble ((a + b) * 2 ^ ?k < 0) \<bar>(a + b) * 2 ^ ?k\<bar> ?e"
    using nz by (simp add: fadd.simps Let_def s del: min_less_iff_conj)
  also have "\<dots> = roundToDouble False ((a + b) * 2 ^ ?k) (0 - int ?k)"
    using sp ek by simp
  also have "\<dots> = roundToDouble False (a + b) 0"
    using roundToDouble_scale[of "a + b" False ?k 0] pa pb by simp
  also have "\<dots> = numberOfInt (a + b)" using pa pb by (simp add: numberOfInt_def)
  finally show ?thesis
    using numberOfInt_pos[OF pa a(2)] numberOfInt_pos[OF pb b(2)] by simp
qed

lemma foldl_fadd_whole:
  "0 \<le> a \<Longrightarrow> list_all isWhole ds \<Longrightarrow> a + sum_list (map wholeOf ds) < 2 ^ 53 \<Longrightarrow>
   foldl fadd (numberOfInt a) ds = numberOfInt (a + sum_list (map wholeOf ds))"
proof (induction ds arbitrary: a)
  case Nil
  show ?case by simp
next
  case (Cons d ds)
  from Cons.prems have w: "isWhole d" and ws: "list_all isWhole ds" by simp_all
  from w have d: "d = numberOfInt (wholeOf d)" "0 \<le> wholeOf d" "wholeOf d < 2 ^ 53"
    by (simp_all add: isWhole_def)
  have nn: "0 \<le> sum_list (map wholeOf ds)"
    using ws by (induction ds) (simp_all add: isWhole_def)
  have a53: "a < 2 ^ 53" using Cons.prems(1,3) d(2) nn by simp
  have "fadd (numberOfInt a) d = numberOfInt (a + wholeOf d)"
    using fadd_numberOfInt[OF Cons.prems(1) a53 d(2,3)] d(1) by simp
  moreover have "foldl fadd (numberOfInt (a + wholeOf d)) ds =
      numberOfInt (a + wholeOf d + sum_list (map wholeOf ds))"
    using Cons.IH[of "a + wholeOf d"] Cons.prems d(2) ws by (simp add: add.assoc)
  ultimately show ?case by (simp add: add.assoc)
qed

lemma sum_wholeOf_nonneg: "list_all isWhole ds \<Longrightarrow> 0 \<le> sum_list (map wholeOf ds)"
  by (induction ds) (simp_all add: isWhole_def)

text \<open>
  Whole numbers whose sum stays below \<open>2^53\<close> add without rounding: their sum as the
  program forms it is the double of the sum of the integers.
\<close>

lemma dsum_whole:
  assumes "list_all isWhole ds" "sum_list (map wholeOf ds) < 2 ^ 53"
  shows "isWhole (dsum ds) \<and> wholeOf (dsum ds) = sum_list (map wholeOf ds)"
proof -
  have "dsum ds = numberOfInt (sum_list (map wholeOf ds))"
    using foldl_fadd_whole[of 0 ds] assms by (simp add: dsum_def numberOfInt_zero)
  with sum_wholeOf_nonneg[OF assms(1)] assms(2) show ?thesis
    by (simp add: wholeOf_numberOfInt isWhole_numberOfInt)
qed


text \<open>
  Over runs that divide a list of statistics whose numbers (the counts, or the volumes)
  are whole and add up to less than \<open>2^53\<close>, the sums of the runs are whole and add up to
  the sum over the list.
\<close>

lemma runs_whole:
  "list_all isWhole (map f (concat runs)) \<Longrightarrow>
   sum_list (map (\<lambda>s. wholeOf (f s)) (concat runs)) < 2 ^ 53 \<Longrightarrow>
   list_all (\<lambda>run. isWhole (dsum (map f run))) runs \<and>
   sum_list (map (\<lambda>run. wholeOf (dsum (map f run))) runs) =
     sum_list (map (\<lambda>s. wholeOf (f s)) (concat runs))"
proof (induction runs)
  case Nil
  show ?case by simp
next
  case (Cons run runs)
  from Cons.prems(1) have w1: "list_all isWhole (map f run)"
    and w2: "list_all isWhole (map f (concat runs))" by simp_all
  have n1: "0 \<le> sum_list (map (\<lambda>s. wholeOf (f s)) run)"
    using sum_wholeOf_nonneg[OF w1] by (simp add: comp_def)
  have n2: "0 \<le> sum_list (map (\<lambda>s. wholeOf (f s)) (concat runs))"
    using sum_wholeOf_nonneg[OF w2] by (simp add: comp_def)
  from Cons.prems(2) n1 n2 have
    b1: "sum_list (map (\<lambda>s. wholeOf (f s)) run) < 2 ^ 53" and
    b2: "sum_list (map (\<lambda>s. wholeOf (f s)) (concat runs)) < 2 ^ 53" by simp_all
  from b1 have "sum_list (map wholeOf (map f run)) < 2 ^ 53" by (simp add: comp_def)
  from dsum_whole[OF w1 this] have
    r: "isWhole (dsum (map f run))"
       "wholeOf (dsum (map f run)) = sum_list (map (\<lambda>s. wholeOf (f s)) run)"
    by (simp_all add: comp_def)
  from Cons.IH[OF w2 b2] r show ?case by simp
qed

lemma list_all_sort_key: "list_all P (map g (sort_key f xs)) = list_all P (map g xs)"
  by (simp add: list_all_iff)

lemma weekOf_fields:
  "map wk_count (map weekOf weeks) = map (\<lambda>run. dsum (map count run)) weeks"
  "map wk_volume (map weekOf weeks) = map (\<lambda>run. dsum (map totalVolume run)) weeks"
  by (simp_all add: weekOf_def)

lemma monthOf_fields:
  "map mo_count (map monthOf months) = map (\<lambda>run. dsum (map count run)) months"
  "map mo_volume (map monthOf months) = map (\<lambda>run. dsum (map totalVolume run)) months"
  by (simp_all add: monthOf_def)

lemma dailyOf_fields:
  "map dy_count (map dailyOf stats) = map count stats"
  "map dy_volume (map dailyOf stats) = map totalVolume stats"
  "map dy_date (map dailyOf stats) = map statDate stats"
  by (simp_all add: dailyOf_def)

text \<open>
  The buckets conserve a whole-numbered quantity: \<open>f\<close> is the count or the volume of a
  day, \<open>w\<close> and \<open>m\<close> that of a weekly and of a monthly bucket.
\<close>

lemma buckets_whole:
  assumes wk: "concat weeks = sort_key statDate timeStats"
    "map w (weekly (calculateTrends timeStats)) = map (\<lambda>run. dsum (map f run)) weeks"
    and mo: "concat months = sort_key statDate timeStats"
    "map m (monthly (calculateTrends timeStats)) = map (\<lambda>run. dsum (map f run)) months"
    and h: "list_all isWhole (map f timeStats)"
    "sum_list (map (\<lambda>s. wholeOf (f s)) timeStats) < 2 ^ 53"
  shows "list_all isWhole (map w (weekly (calculateTrends timeStats))) \<and>
         list_all isWhole (map m (monthly (calculateTrends timeStats))) \<and>
         sum_list (map (\<lambda>e. wholeOf (w e)) (weekly (calculateTrends timeStats))) =
           sum_list (map (\<lambda>s. wholeOf (f s)) timeStats) \<and>
         sum_list (map (\<lambda>e. wholeOf (m e)) (monthly (calculateTrends timeStats))) =
           sum_list (map (\<lambda>s. wholeOf (f s)) timeStats)"
proof -
  let ?sorted = "sort_key statDate timeStats"
  have s1: "list_all isWhole (map f ?sorted)" using h(1) by (simp add: list_all_sort_key)
  have s2: "sum_list (map (\<lambda>s. wholeOf (f s)) ?sorted) = sum_list (map (\<lambda>s. wholeOf (f s)) timeStats)"
    by (rule sum_sort_key)
  from runs_whole[of f weeks] s1 s2 h(2) wk(1)
  have a: "list_all (\<lambda>run. isWhole (dsum (map f run))) weeks"
    "sum_list (map (\<lambda>run. wholeOf (dsum (map f run))) weeks) =
       sum_list (map (\<lambda>s. wholeOf (f s)) timeStats)" by simp_all
  from runs_whole[of f months] s1 s2 h(2) mo(1)
  have b: "list_all (\<lambda>run. isWhole (dsum (map f run))) months"
    "sum_list (map (\<lambda>run. wholeOf (dsum (map f run))) months) =
       sum_list (map (\<lambda>s. wholeOf (f s)) timeStats)" by simp_all
  have w1: "map (\<lambda>e. wholeOf (w e)) (weekly (calculateTrends timeStats)) =
            map wholeOf (map w (weekly (calculateTrends timeStats)))" by simp
  have m1: "map (\<lambda>e. wholeOf (m e)) (monthly (calculateTrends timeStats)) =
            map wholeOf (map m (monthly (calculateTrends timeStats)))" by simp
  show ?thesis
    unfolding w1 m1 wk(2) mo(2) using a b by (simp add: list_all_iff comp_def)
qed

text \<open>The trends of the sample statistics.\<close>

lemma fadd_samples:
  "fadd d01 d02 = Finite 5404319552844596 (- 54)"
  "fadd (Finite 5404319552844596 (- 54)) d03 = d06up"
  "fadd d02 d03 = d05"
  "fadd d01 d05 = d06"
  "fadd n1 n1 = n2" "fadd n2 n1 = n3" "fadd n1 n2 = n3" "fadd n3 n2 = n5"
  "fadd n7 n5 = n12" "fadd n5 n7 = n12" "fadd n12 n5 = n17"
  by code_simp+

lemma whole_samples:
  "isWhole n1" "isWhole n2" "isWhole n3" "isWhole n5" "isWhole n7" "isWhole n12" "isWhole n17"
  "wholeOf n1 = 1" "wholeOf n2 = 2" "wholeOf n3 = 3" "wholeOf n5 = 5" "wholeOf n7 = 7"
  "wholeOf n12 = 12" "wholeOf n17 = 17"
  by code_simp+

lemma january_dates:
  "statDate (dayStat 2024 1 1 v) = 1704067200000"
  "statDate (dayStat 2024 1 20 v) = 1705708800000"
  "statDate (dayStat 2024 1 21 v) = 1705795200000"
  "statDate ((dayStat 2024 1 1 v)\<lparr>count := c\<rparr>) = 1704067200000"
  "statDate ((dayStat 2024 1 21 v)\<lparr>count := c\<rparr>) = 1705795200000"
  "getMonth 1704067200000 = 0" "getMonth 1705708800000 = 0" "getMonth 1705795200000 = 0"
  "getFullYear 1704067200000 = 2024" "getFullYear 1705708800000 = 2024"
  "getFullYear 1705795200000 = 2024"
proof -
  have d: "newDate 2024 0 1 = 1704067200000" "newDate 2024 0 20 = 1705708800000"
    "newDate 2024 0 21 = 1705795200000"
    by code_simp+
  show "statDate (dayStat 2024 1 1 v) = 1704067200000"
    "statDate (dayStat 2024 1 20 v) = 1705708800000"
    "statDate (dayStat 2024 1 21 v) = 1705795200000"
    "statDate ((dayStat 2024 1 1 v)\<lparr>count := c\<rparr>) = 1704067200000"
    "statDate ((dayStat 2024 1 21 v)\<lparr>count := c\<rparr>) = 1705795200000"
    by (simp_all add: statDate_def dayStat_def d)
  show "getMonth 1704067200000 = 0" "getMonth 1705708800000 = 0" "getMonth 1705795200000 = 0"
    "getFullYear 1704067200000 = 2024" "getFullYear 1705708800000 = 2024"
    "getFullYear 1705795200000 = 2024"
    by code_simp+
qed

lemma dayStat_fields:
  "totalVolume (dayStat y m d v) = v" "count (dayStat y m d v) = n1"
  "avgResponseTime (dayStat y m d v) = None"
  by (simp_all add: dayStat_def)

lemma january_sorted:
  "sort_key statDate january = [dayStat 2024 1 1 d01, dayStat 2024 1 20 d02, dayStat 2024 1 21 d03]"
  "sort_key statDate wholeJanuary =
     [(dayStat 2024 1 1 n5)\<lparr>count := n2\<rparr>, dayStat 2024 1 20 n7, (dayStat 2024 1 21 n5)\<lparr>count := n2\<rparr>]"
  by (simp_all add: january_def wholeJanuary_def january_dates)

lemmas trend_defs =
  Let_def dailyOf_def january_dates dayStat_fields trendStep_def initialTrendState_def
  emptyAccumulator_def sameWeek_def sameMonth_def addToAccumulator_def startAccumulator_def
  closeWeek_def closeMonth_def responseTimes_def average_def fadd_dzero fadd_samples

lemma january_trends:
  "calculateTrends january =
     \<lparr>daily = [\<lparr>dy_date = 1704067200000, dy_count = n1, dy_volume = d01, dy_avgResponseTime = None\<rparr>,
               \<lparr>dy_date = 1705708800000, dy_count = n1, dy_volume = d02, dy_avgResponseTime = None\<rparr>,
               \<lparr>dy_date = 1705795200000, dy_count = n1, dy_volume = d03, dy_avgResponseTime = None\<rparr>],
      weekly = [\<lparr>wk_startDate = 1704067200000, wk_endDate = 1704067200000, wk_count = n1,
                 wk_volume = d01, wk_avgResponseTime = None\<rparr>,
                \<lparr>wk_startDate = 1705708800000, wk_endDate = 1705795200000, wk_count = n2,
                 wk_volume = d05, wk_avgResponseTime = None\<rparr>],
      monthly = [\<lparr>mo_month = 1, mo_year = 2024, mo_count = n3, mo_volume = d06up,
                  mo_avgResponseTime = None\<rparr>]\<rparr>"
  unfolding calculateTrends_def january_sorted
  by (simp add: trend_defs)

lemma wholeJanuary_trends:
  "calculateTrends wholeJanuary =
     \<lparr>daily = [\<lparr>dy_date = 1704067200000, dy_count = n2, dy_volume = n5, dy_avgResponseTime = None\<rparr>,
               \<lparr>dy_date = 1705708800000, dy_count = n1, dy_volume = n7, dy_avgResponseTime = None\<rparr>,
               \<lparr>dy_date = 1705795200000, dy_count = n2, dy_volume = n5, dy_avgResponseTime = None\<rparr>],
      weekly = [\<lparr>wk_startDate = 1704067200000, wk_endDate = 1704067200000, wk_count = n2,
                 wk_volume = n5, wk_avgResponseTime = None\<rparr>,
                \<lparr>wk_startDate = 1705708800000, wk_endDate = 1705795200000, wk_count = n3,
                 wk_volume = n12, wk_avgResponseTime = None\<rparr>],
      monthly = [\<lparr>mo_month = 1, mo_year = 2024, mo_count = n5, mo_volume = n17,
                  mo_avgResponseTime = None\<rparr>]\<rparr>"
  unfolding calculateTrends_def january_sorted
  by (simp add: trend_defs)

text \<open>
  C7, as the code has it. For every list of per-day statistics the daily series of
  \<open>calculateTrends\<close> is the input sorted ascending by date, a rearrangement of it, one entry
  per day with the day's date, count and volume. The weekly buckets, and likewise the
  monthly buckets, divide that sorted series into consecutive non-empty runs, every day in
  exactly one run of each kind, and each bucket is the entry of its run: its count and
  its volume are those of its days, added in double precision in the order of the days.
  Where the counts are whole numbers that add up to less than \<open>2^53\<close> no addition rounds,
  and the counts of the weekly buckets, and of the monthly buckets, add up to the counts
  of the daily entries, which are those of the input; the same holds of the volumes
  where they are whole. Volumes in general are conserved only up to the rounding of the
  additions.
\<close>

theorem calculateTrends_buckets:
  "(\<exists>weeks months.
      concat weeks = sort_key statDate timeStats \<and> [] \<notin> set weeks \<and>
      concat months = sort_key statDate timeStats \<and> [] \<notin> set months \<and>
      weekly (calculateTrends timeStats) = map weekOf weeks \<and>
      monthly (calculateTrends timeStats) = map monthOf months) \<and>
   daily (calculateTrends timeStats) = map dailyOf (sort_key statDate timeStats) \<and>
   (\<forall>stat. count_list (sort_key statDate timeStats) stat = count_list timeStats stat) \<and>
   sorted (map dy_date (daily (calculateTrends timeStats))) \<and>
   (list_all isWhole (map count timeStats) \<and>
    sum_list (map (\<lambda>s. wholeOf (count s)) timeStats) < 2 ^ 53 \<longrightarrow>
      list_all isWhole (map wk_count (weekly (calculateTrends timeStats))) \<and>
      list_all isWhole (map mo_count (monthly (calculateTrends timeStats))) \<and>
      sum_list (map (\<lambda>e. wholeOf (wk_count e)) (weekly (calculateTrends timeStats))) =
        sum_list (map (\<lambda>e. wholeOf (dy_count e)) (daily (calculateTrends timeStats))) \<and>
      sum_list (map (\<lambda>e. wholeOf (mo_count e)) (monthly (calculateTrends timeStats))) =
        sum_list (map (\<lambda>e. wholeOf (dy_count e)) (daily (calculateTrends timeStats))) \<and>
      sum_list (map (\<lambda>e. wholeOf (dy_count e)) (daily (calculateTrends timeStats))) =
        sum_list (map (\<lambda>s. wholeOf (count s)) timeStats)) \<and>
   (list_all isWhole (map totalVolume timeStats) \<and>
    sum_list (map (\<lambda>s. wholeOf (totalVolume s)) timeStats) < 2 ^ 53 \<longrightarrow>
      list_all isWhole (map wk_volume (weekly (calculateTrends timeStats))) \<and>
      list_all isWhole (map mo_volume (monthly (calculateTrends timeStats))) \<and>
      sum_list (map (\<lambda>e. wholeOf (wk_volume e)) (weekly (calculateTrends timeStats))) =
        sum_list (map (\<lambda>e. wholeOf (dy_volume e)) (daily (calculateTrends timeStats))) \<and>
      sum_list (map (\<lambda>e. wholeOf (mo_volume e)) (monthly (calculateTrends timeStats))) =
        sum_list (map (\<lambda>e. wholeOf (dy_volume e)) (daily (calculateTrends timeStats))) \<and>
      sum_list (map (\<lambda>e. wholeOf (dy_volume e)) (daily (calculateTrends timeStats))) =
        sum_list (map (\<lambda>s. wholeOf (totalVolume s)) timeStats))"
proof -
  let ?sorted = "sort_key statDate timeStats"
  let ?T = "calculateTrends timeStats"
  from weekly_runs[of ?sorted] obtain weeks where
    w: "concat weeks = ?sorted" "[] \<notin> set weeks" "weekly ?T = map weekOf weeks"
    by (auto simp: calculateTrends_def Let_def)
  from monthly_runs[of ?sorted] obtain months where
    m: "concat months = ?sorted" "[] \<notin> set months" "monthly ?T = map monthOf months"
    by (auto simp: calculateTrends_def Let_def)
  have d: "daily ?T = map dailyOf ?sorted"
    by (simp add: calculateTrends_def Let_def)
  have s: "sorted (map dy_date (daily ?T))"
    unfolding d dailyOf_fields by simp
  have p: "\<forall>stat. count_list ?sorted stat = count_list timeStats stat"
    by (simp add: count_list_sort_key)
  have dc: "sum_list (map (\<lambda>e. wholeOf (dy_count e)) (daily ?T)) =
            sum_list (map (\<lambda>s. wholeOf (count s)) timeStats)"
  proof -
    have "map (\<lambda>e. wholeOf (dy_count e)) (daily ?T) = map (\<lambda>s. wholeOf (count s)) ?sorted"
      unfolding d by (simp add: dailyOf_def)
    then show ?thesis by (simp add: sum_sort_key)
  qed
  have dv: "sum_list (map (\<lambda>e. wholeOf (dy_volume e)) (daily ?T)) =
            sum_list (map (\<lambda>s. wholeOf (totalVolume s)) timeStats)"
  proof -
    have "map (\<lambda>e. wholeOf (dy_volume e)) (daily ?T) = map (\<lambda>s. wholeOf (totalVolume s)) ?sorted"
      unfolding d by (simp add: dailyOf_def)
    then show ?thesis by (simp add: sum_sort_key)
  qed
  have wc: "map wk_count (weekly ?T) = map (\<lambda>run. dsum (map count run)) weeks"
    and wv: "map wk_volume (weekly ?T) = map (\<lambda>run. dsum (map totalVolume run)) weeks"
    unfolding w(3) by (rule weekOf_fields)+
  have mc: "map mo_count (monthly ?T) = map (\<lambda>run. dsum (map count run)) months"
    and mv: "map mo_volume (monthly ?T) = map (\<lambda>run. dsum (map totalVolume run)) months"
    unfolding m(3) by (rule monthOf_fields)+
  have c: "list_all isWhole (map count timeStats) \<and>
    sum_list (map (\<lambda>s. wholeOf (count s)) timeStats) < 2 ^ 53 \<longrightarrow>
      list_all isWhole (map wk_count (weekly ?T)) \<and>
      list_all isWhole (map mo_count (monthly ?T)) \<and>
      sum_list (map (\<lambda>e. wholeOf (wk_count e)) (weekly ?T)) =
        sum_list (map (\<lambda>e. wholeOf (dy_count e)) (daily ?T)) \<and>
      sum_list (map (\<lambda>e. wholeOf (mo_count e)) (monthly ?T)) =
        sum_list (map (\<lambda>e. wholeOf (dy_count e)) (daily ?T)) \<and>
      sum_list (map (\<lambda>e. wholeOf (dy_count e)) (daily ?T)) =
        sum_list (map (\<lambda>s. wholeOf (count s)) timeStats)"
    using buckets_whole[OF w(1) wc m(1) mc] dc by simp
  have v: "list_all isWhole (map totalVolume timeStats) \<and>
    sum_list (map (\<lambda>s. wholeOf (totalVolume s)) timeStats) < 2 ^ 53 \<longrightarrow>
      list_all isWhole (map wk_volume (weekly ?T)) \<and>
      list_all isWhole (map mo_volume (monthly ?T)) \<and>
      sum_list (map (\<lambda>e. wholeOf (wk_volume e)) (weekly ?T)) =
        sum_list (map (\<lambda>e. wholeOf (dy_volume e)) (daily ?T)) \<and>
      sum_list (map (\<lambda>e. wholeOf (mo_volume e)) (monthly ?T)) =
        sum_list (map (\<lambda>e. wholeOf (dy_volume e)) (daily ?T)) \<and>
      sum_list (map (\<lambda>e. wholeOf (dy_volume e)) (daily ?T)) =
        sum_list (map (\<lambda>s. wholeOf (totalVolume s)) timeStats)"
    using buckets_whole[OF w(1) wv m(1) mv] dv by simp
  from w m have e: "\<exists>weeks months.
      concat weeks = ?sorted \<and> [] \<notin> set weeks \<and>
      concat months = ?sorted \<and> [] \<notin> set months \<and>
      weekly ?T = map weekOf weeks \<and> monthly ?T = map monthOf months" by blast
  from e d p s c v show ?thesis by blast
qed

text \<open>
  The theorem on the statistics of three days with whole counts (2, 1, 2) and whole
  volumes (5, 7, 5): the weekly buckets hold the counts 2 and 3 and the volumes 5 and 12,
  the monthly bucket holds 5 and 17, and the sums agree with those of the days.
\<close>

theorem calculateTrends_buckets_witness:
  "list_all isWhole (map count wholeJanuary) \<and>
   sum_list (map (\<lambda>s. wholeOf (count s)) wholeJanuary) = 5 \<and> (5::int) < 2 ^ 53 \<and>
   list_all isWhole (map totalVolume wholeJanuary) \<and>
   sum_list (map (\<lambda>s. wholeOf (totalVolume s)) wholeJanuary) = 17 \<and> (17::int) < 2 ^ 53 \<and>
   map dy_date (daily (calculateTrends wholeJanuary)) =
     [1704067200000, 1705708800000, 1705795200000] \<and>
   map dy_count (daily (calculateTrends wholeJanuary)) = [n2, n1, n2] \<and>
   map wk_count (weekly (calculateTrends wholeJanuary)) = [n2, n3] \<and>
   map mo_count (monthly (calculateTrends wholeJanuary)) = [n5] \<and>
   map dy_volume (daily (calculateTrends wholeJanuary)) = [n5, n7, n5] \<and>
   map wk_volume (weekly (calculateTrends wholeJanuary)) = [n5, n12] \<and>
   map mo_volume (monthly (calculateTrends wholeJanuary)) = [n17] \<and>
   sum_list (map (\<lambda>e. wholeOf (wk_count e)) (weekly (calculateTrends wholeJanuary))) = 5 \<and>
   sum_list (map (\<lambda>e. wholeOf (mo_count e)) (monthly (calculateTrends wholeJanuary))) = 5 \<and>
   sum_list (map (\<lambda>e. wholeOf (dy_count e)) (daily (calculateTrends wholeJanuary))) = 5 \<and>
   sum_list (map (\<lambda>e. wholeOf (wk_volume e)) (weekly (calculateTrends wholeJanuary))) = 17 \<and>
   sum_list (map (\<lambda>e. wholeOf (mo_volume e)) (monthly (calculateTrends wholeJanuary))) = 17 \<and>
   sum_list (map (\<lambda>e. wholeOf (dy_volume e)) (daily (calculateTrends wholeJanuary))) = 17"
proof -
  have h: "list_all isWhole (map count wholeJanuary)"
    "sum_list (map (\<lambda>s. wholeOf (count s)) wholeJanuary) = 5"
    "list_all isWhole (map totalVolume wholeJanuary)"
    "sum_list (map (\<lambda>s. wholeOf (totalVolume s)) wholeJanuary) = 17"
    by (simp_all add: wholeJanuary_def dayStat_fields whole_samples)
  have lt: "sum_list (map (\<lambda>s. wholeOf (count s)) wholeJanuary) < 2 ^ 53"
    "sum_list (map (\<lambda>s. wholeOf (totalVolume s)) wholeJanuary) < 2 ^ 53"
    using h(2,4) by simp_all
  from calculateTrends_buckets[of wholeJanuary] h(1) lt(1)
  have c: "sum_list (map (\<lambda>e. wholeOf (wk_count e)) (weekly (calculateTrends wholeJanuary))) =
        sum_list (map (\<lambda>e. wholeOf (dy_count e)) (daily (calculateTrends wholeJanuary)))"
    "sum_list (map (\<lambda>e. wholeOf (mo_count e)) (monthly (calculateTrends wholeJanuary))) =
        sum_list (map (\<lambda>e. wholeOf (dy_count e)) (daily (calculateTrends wholeJanuary)))"
    "sum_list (map (\<lambda>e. wholeOf (dy_count e)) (daily (calculateTrends wholeJanuary))) =
        sum_list (map (\<lambda>s. wholeOf (count s)) wholeJanuary)"
    by blast+
  from calculateTrends_buckets[of wholeJanuary] h(3) lt(2)
  have v: "sum_list (map (\<lambda>e. wholeOf (wk_volume e)) (weekly (calculateTrends wholeJanuary))) =
        sum_list (map (\<lambda>e. wholeOf (dy_volume e)) (daily (calculateTrends wholeJanuary)))"
    "sum_list (map (\<lambda>e. wholeOf (mo_volume e)) (monthly (calculateTrends wholeJanuary))) =
        sum_list (map (\<lambda>e. wholeOf (dy_volume e)) (daily (calculateTrends wholeJanuary)))"
    "sum_list (map (\<lambda>e. wholeOf (dy_volume e)) (daily (calculateTrends wholeJanuary))) =
        sum_list (map (\<lambda>s. wholeOf (totalVolume s)) wholeJanuary)"
    by blast+
  have f: "map dy_date (daily (calculateTrends wholeJanuary)) =
     [1704067200000, 1705708800000, 1705795200000]"
    "map dy_count (daily (calculateTrends wholeJanuary)) = [n2, n1, n2]"
    "map wk_count (weekly (calculateTrends wholeJanuary)) = [n2, n3]"
    "map mo_count (monthly (calculateTrends wholeJanuary)) = [n5]"
    "map dy_volume (daily (calculateTrends wholeJanuary)) = [n5, n7, n5]"
    "map wk_volume (weekly (calculateTrends wholeJanuary)) = [n5, n12]"
    "map mo_volume (monthly (calculateTrends wholeJanuary)) = [n17]"
    by (simp_all add: wholeJanuary_trends)
  have s: "sum_list (map (\<lambda>e. wholeOf (wk_count e)) (weekly (calculateTrends wholeJanuary))) = 5"
    "sum_list (map (\<lambda>e. wholeOf (mo_count e)) (monthly (calculateTrends wholeJanuary))) = 5"
    "sum_list (map (\<lambda>e. wholeOf (dy_count e)) (daily (calculateTrends wholeJanuary))) = 5"
    "sum_list (map (\<lambda>e. wholeOf (wk_volume e)) (weekly (calculateTrends wholeJanuary))) = 17"
    "sum_list (map (\<lambda>e. wholeOf (mo_volume e)) (monthly (calculateTrends wholeJanuary))) = 17"
    "sum_list (map (\<lambda>e. wholeOf (dy_volume e)) (daily (calculateTrends wholeJanuary))) = 17"
    using c v h(2,4) by simp_all
  from h f s show ?thesis by simp
qed

text \<open>
  C7 as the claim states it fails for the volumes, which are added in floating point. On
  the statistics of 1, 20 and 21 January 2024 with the volumes 0.1, 0.2 and 0.3, the weekly
  buckets hold 0.1 and 0.5 and the monthly bucket holds 0.6000000000000001. Added as the
  program adds them, the weekly volumes give 0.6 where the daily volumes give
  0.6000000000000001; and as exact numbers the volume of the monthly bucket is not the
  sum of the daily volumes.
\<close>

theorem calculateTrends_volume_counterexample:
  "list_all isDouble (map totalVolume january) \<and>
   map dy_volume (daily (calculateTrends january)) = [d01, d02, d03] \<and>
   map wk_volume (weekly (calculateTrends january)) = [d01, d05] \<and>
   map mo_volume (monthly (calculateTrends january)) = [d06up] \<and>
   dsum (map wk_volume (weekly (calculateTrends january))) = d06 \<and>
   dsum (map dy_volume (daily (calculateTrends january))) = d06up \<and>
   dsum (map wk_volume (weekly (calculateTrends january))) \<noteq>
     dsum (map dy_volume (daily (calculateTrends january))) \<and>
   exactSum (map mo_volume (monthly (calculateTrends january))) \<noteq>
     exactSum (map dy_volume (daily (calculateTrends january)))"
proof -
  have ne: "d06 \<noteq> d06up" by (simp add: d06_def d06up_def)
  have ex: "exactSum [d06up] \<noteq> exactSum [d01, d02, d03]"
    by (simp add: exactSum_def d06up_def d01_def d02_def d03_def)
  have dbl: "list_all isDouble (map totalVolume january)"
    by (simp add: january_def dayStat_fields d01_def d02_def d03_def)
  from ne ex dbl show ?thesis
    unfolding january_trends by (simp add: dsum_def fadd_dzero fadd_samples)
qed


subsection \<open>Reads and writes of the repository\<close>

lemmas eval_defs =
  bulkUpdateStatus_def bulkAssignCollectors_def bulkFinish_def bulkUpdateStatus_entry_def
  bulkAssignCollectors_entry_def PickupRepository_findById_def getCacheValue_def setCacheValue_def
  findOneActive_def cacheKey_def validateStatusTransition_def validTransitions_def bulkWrite_def
  written_def accepted_def inListOrder_def secondFirst_def firstFails_def castHistoryEntry_def
  historyEntryValid_def trim_def isWhiteSpace_def castError_def onePending_def pushed_def toStatus_def
  toCollector_def collectorC_def collectorD_def pendingCached_def bothCached_def
  createdEmergency_def
  applyUpdateOne_def matched_def MAX_CACHE_SIZE_def CACHE_TTL_def PickupRepository_update_def
  BaseRepository_update_def statusTransitionGuard_def buildUpdate_def updateValidators_def
  applyUpdate_def emptyUpdate_def optStr_def optNum_def validateStatus_def validateWasteType_def
  PICKUP_STATUSES_def WASTE_TYPES_def PRIORITIES_def statusTo_def assignTo_def samplePickup_def
  idA_def idB_def twoRequests_def oneAssigned_def oneEmergency_def emergencyPickup_def
  updatePriority_def PickupRepository_create_def BaseRepository_create_def schemaErrors_def
  newDocument_def preSaveHook_def ObjectId_isValid_def locationValidator_def sampleData_def
  emergencyData_def

lemma findById_db: "PickupRepository_findById st now pid = (r, st1) \<Longrightarrow> db st1 = db st"
  by (auto simp: PickupRepository_findById_def split: prod.splits option.splits if_splits)











text \<open>Every order of a list is the rearrangement by some picks.\<close>

lemma count_list_remove_nth:
  assumes "i < length xs"
  shows "count_list xs x = count_list (take i xs @ drop (Suc i) xs) x + (if xs ! i = x then 1 else 0)"
proof -
  have "xs = take i xs @ xs ! i # drop (Suc i) xs" using assms by (rule id_take_nth_drop)
  then have "count_list xs x = count_list (take i xs @ xs ! i # drop (Suc i) xs) x" by simp
  then show ?thesis by (simp add: count_list_append)
qed

lemma reorder_reaches_every_order:
  "(\<And>x. count_list ys x = count_list xs x) \<Longrightarrow> \<exists>picks. reorder picks xs = ys"
proof (induction ys arbitrary: xs)
  case Nil
  have "xs = []"
  proof (cases xs)
    case (Cons a as)
    with Nil[of a] show ?thesis by simp
  qed simp
  then have "reorder [] xs = []" by simp
  then show ?case by blast
next
  case (Cons y ys)
  from Cons.prems[of y] have "count_list xs y > 0" by simp
  then have "y \<in> set xs" using count_list_0_iff[of xs y] by auto
  then obtain i where i: "i < length xs" "xs ! i = y" by (auto simp: in_set_conv_nth)
  let ?rest = "take i xs @ drop (Suc i) xs"
  have "count_list ys x = count_list ?rest x" for x
    using Cons.prems[of x] count_list_remove_nth[OF i(1), of x] i(2) by (auto split: if_splits)
  from Cons.IH[OF this] obtain picks where p: "reorder picks ?rest = ys" by blast
  from i have ne: "xs \<noteq> []" by auto
  from i p ne have "reorder (i # picks) xs = y # ys" by simp
  then show ?case by blast
qed



subsection \<open>Bulk operations\<close>




text \<open>
  The two options decide what is stored. For the two operations on request A above: an
  ordered write stores them in the order of the list where the unordered write of a
  server that takes the second first stores the other order; an ordered write stops at
  the failure of the first operation where the unordered write stores the second; and
  inside a transaction the failure leaves the collection as it was.
\<close>

lemma bulkWrite_options_decide:
  "snd (bulkWrite (db onePending) [toStatus ''assigned'', toStatus ''cancelled'']
          \<lparr>ordered = False, session = None\<rparr> secondFirst) \<noteq>
   snd (bulkWrite (db onePending) [toStatus ''assigned'', toStatus ''cancelled'']
          \<lparr>ordered = True, session = None\<rparr> secondFirst) \<and>
   snd (bulkWrite (db onePending) [toStatus ''assigned'', toStatus ''cancelled'']
          \<lparr>ordered = False, session = None\<rparr> firstFails) \<noteq>
   snd (bulkWrite (db onePending) [toStatus ''assigned'', toStatus ''cancelled'']
          \<lparr>ordered = True, session = None\<rparr> firstFails) \<and>
   snd (bulkWrite (db onePending) [toStatus ''assigned'', toStatus ''cancelled'']
          \<lparr>ordered = True, session = None\<rparr> firstFails) = db onePending \<and>
   snd (bulkWrite (db onePending) [toStatus ''assigned'', toStatus ''cancelled'']
          \<lparr>ordered = False, session = Some ''transaction''\<rparr> firstFails) = db onePending"
  by (simp add: eval_defs)

subsection \<open>Terminal states\<close>

text \<open>
  A request that is stored as collected or cancelled, with no cached copy that says
  otherwise, is not moved by any status-changing operation: the update with another
  status fails and writes nothing, and the bulk operations record an error for the entry.
\<close>

lemma findById_status:
  "PickupRepository_findById st now pid = (Inr request, st1) \<Longrightarrow> cachedStatusAgrees st pid \<Longrightarrow>
   map_of (db st) pid = Some d \<Longrightarrow> status request = status d"
  by (auto simp: PickupRepository_findById_def getCacheValue_def cachedStatusAgrees_def
      findOneActive_def split: prod.splits option.splits if_splits)

lemma BaseRepository_update_failed:
  "BaseRepository_update st pid u = (Inl e, st2) \<Longrightarrow> st2 = st"
  by (auto simp: BaseRepository_update_def split: if_splits option.splits)

lemma terminal_update_rejected:
  assumes m: "map_of (db st) pid = Some d"
    and t: "status d = ''collected'' \<or> status d = ''cancelled''"
    and c: "cachedStatusAgrees st pid"
    and s: "u_status data = Some s" "s \<noteq> status d"
  shows "\<exists>e st'. PickupRepository_update st now pid data = (Inl e, st') \<and> db st' = db st"
proof (cases "s \<in> set PICKUP_STATUSES")
  case False
  show ?thesis
  proof (cases "s = []")
    case True
    obtain r st1 where f: "PickupRepository_findById st now pid = (r, st1)" by force
    have d1: "db st1 = db st" using f by (rule findById_db)
    have nv: "\<And>request. \<not> updateValidators (buildUpdate request now data)"
      using s True by (simp add: updateValidators_def buildUpdate_def PICKUP_STATUSES_def)
    show ?thesis
      using s True f d1 nv
      by (cases r)
         (auto simp: PickupRepository_update_def BaseRepository_update_def optStr_def
            statusTransitionGuard_def split: if_splits)
  next
    case nonempty: False
    with False s show ?thesis
      by (auto simp: PickupRepository_update_def optStr_def validateStatus_def)
  qed
next
  case True
  then have ne: "s \<noteq> []" by (auto simp: PICKUP_STATUSES_def)
  obtain r st1 where f: "PickupRepository_findById st now pid = (r, st1)" by force
  have d1: "db st1 = db st" using f by (rule findById_db)
  show ?thesis
  proof (cases r)
    case (Inl e)
    with f d1 show ?thesis
      by (auto simp: PickupRepository_update_def split: if_splits)
  next
    case (Inr request)
    with f have "status request = status d" using findById_status c m by blast
    with t s ne have "statusTransitionGuard request data \<noteq> None"
      by (auto simp: statusTransitionGuard_def optStr_def)
    with f Inr d1 show ?thesis
      by (auto simp: PickupRepository_update_def split: if_splits option.splits)
  qed
qed

lemma terminal_bulk_entries_rejected:
  assumes m: "map_of (db st) pid = Some d"
    and t: "status d = ''collected'' \<or> status d = ''cancelled''"
    and c: "cachedStatusAgrees st pid"
  shows "\<exists>e st'. bulkUpdateStatus_entry st now \<lparr>su_id = Some pid, su_status = Some s, su_note = n\<rparr> =
                    (Inl e, st') \<and> db st' = db st"
    and "\<exists>e st'. bulkAssignCollectors_entry st now
                    \<lparr>as_pickupId = Some pid, as_collectorId = Some col, as_note = n\<rparr> =
                    (Inl e, st') \<and> db st' = db st"
proof -
  obtain r st1 where f: "PickupRepository_findById st now pid = (r, st1)" by force
  have d1: "db st1 = db st" using f by (rule findById_db)
  have st: "\<And>request. r = Inr request \<Longrightarrow> status request = ''collected'' \<or> status request = ''cancelled''"
    using findById_status[OF _ c m] f t by auto
  show "\<exists>e st'. bulkUpdateStatus_entry st now \<lparr>su_id = Some pid, su_status = Some s, su_note = n\<rparr> =
                    (Inl e, st') \<and> db st' = db st"
    using f d1 st
    by (cases r)
       (auto simp: bulkUpdateStatus_entry_def validateStatusTransition_def validTransitions_def)
  show "\<exists>e st'. bulkAssignCollectors_entry st now
                    \<lparr>as_pickupId = Some pid, as_collectorId = Some col, as_note = n\<rparr> =
                    (Inl e, st') \<and> db st' = db st"
    using f d1 st
    by (cases r) (auto simp: bulkAssignCollectors_entry_def)
qed

text \<open>
  C3 fails on the code where the cached copy is stale. \<open>bulkUpdateStatus\<close> reads request
  A (assigned) through \<open>findById\<close>, which caches it, and writes the status collected to the
  collection (the server fails nothing) without deleting the cache entry. Within the five
  minutes of the cache, \<open>PickupRepository.update\<close> and \<open>bulkUpdateStatus\<close> check the next
  transition against the cached copy, still assigned, and move the collected request to
  cancelled.
\<close>

theorem terminal_state_left_after_bulk_update:
  "bulkUpdateStatus oneAssigned 1000 inListOrder [statusTo idA ''collected''] =
     (Inr \<lparr>success = True, modifiedCount = 1, matchedCount = 1, resultMessage = None\<rparr>,
      \<lparr>db = [(idA, (samplePickup ''collected'')
                      \<lparr>statusHistory :=
                         [\<lparr>hstatus = ''pending'', hnote = None, hupdatedAt = 0\<rparr>,
                          \<lparr>hstatus = ''collected'', hnote = Some [], hupdatedAt = 1000\<rparr>]\<rparr>)],
       cache = [(cacheKey idA, (samplePickup ''assigned'', 1000))]\<rparr>) \<and>
   PickupRepository_update
      \<lparr>db = [(idA, (samplePickup ''collected'')
                      \<lparr>statusHistory :=
                         [\<lparr>hstatus = ''pending'', hnote = None, hupdatedAt = 0\<rparr>,
                          \<lparr>hstatus = ''collected'', hnote = Some [], hupdatedAt = 1000\<rparr>]\<rparr>)],
       cache = [(cacheKey idA, (samplePickup ''assigned'', 1000))]\<rparr>
      2000 idA (emptyUpdate\<lparr>u_status := Some ''cancelled''\<rparr>) =
     (Inr ((samplePickup ''cancelled'')
             \<lparr>statusHistory :=
                [\<lparr>hstatus = ''pending'', hnote = None, hupdatedAt = 0\<rparr>,
                 \<lparr>hstatus = ''cancelled'', hnote = None, hupdatedAt = 2000\<rparr>]\<rparr>),
      \<lparr>db = [(idA, (samplePickup ''cancelled'')
                      \<lparr>statusHistory :=
                         [\<lparr>hstatus = ''pending'', hnote = None, hupdatedAt = 0\<rparr>,
                          \<lparr>hstatus = ''cancelled'', hnote = None, hupdatedAt = 2000\<rparr>]\<rparr>)],
       cache = []\<rparr>) \<and>
   bulkUpdateStatus
      \<lparr>db = [(idA, (samplePickup ''collected'')
                      \<lparr>statusHistory :=
                         [\<lparr>hstatus = ''pending'', hnote = None, hupdatedAt = 0\<rparr>,
                          \<lparr>hstatus = ''collected'', hnote = Some [], hupdatedAt = 1000\<rparr>]\<rparr>)],
       cache = [(cacheKey idA, (samplePickup ''assigned'', 1000))]\<rparr>
      2000 inListOrder [statusTo idA ''cancelled''] =
     (Inr \<lparr>success = True, modifiedCount = 1, matchedCount = 1, resultMessage = None\<rparr>,
      \<lparr>db = [(idA, (samplePickup ''cancelled'')
                      \<lparr>statusHistory :=
                         [\<lparr>hstatus = ''pending'', hnote = None, hupdatedAt = 0\<rparr>,
                          \<lparr>hstatus = ''collected'', hnote = Some [], hupdatedAt = 1000\<rparr>,
                          \<lparr>hstatus = ''cancelled'', hnote = Some [], hupdatedAt = 2000\<rparr>]\<rparr>)],
       cache = [(cacheKey idA, (samplePickup ''assigned'', 1000))]\<rparr>)"
  by (simp add: eval_defs)

subsection \<open>Create\<close>

lemma preSaveHook_urgent:
  "isEmergency (preSaveHook now m doc) \<longrightarrow> priority (preSaveHook now m doc) = ''urgent''"
  by (simp add: preSaveHook_def Let_def)

lemma preSaveHook_status: "status (preSaveHook now m doc) = status doc"
  by (simp add: preSaveHook_def Let_def)

lemma preSaveHook_history:
  "statusHistory (preSaveHook now m doc) =
     statusHistory doc @ (if m then [\<lparr>hstatus = status doc, hnote = None, hupdatedAt = now\<rparr>] else [])"
  by (simp add: preSaveHook_def Let_def)

lemma BaseRepository_create_result:
  "BaseRepository_create st now newId data = (Inr d, st') \<Longrightarrow>
   d = preSaveHook now (d_status data \<noteq> None) (newDocument now data) \<and>
   schemaErrors now data = [] \<and> map_of (db st) newId = None \<and> db st' = db st @ [(newId, d)] \<and>
   cache st' = cache st"
  by (auto simp: BaseRepository_create_def Let_def split: if_splits)

text \<open>
  What every successful \<open>PickupRepository.create\<close> stores: status pending, whatever the
  caller supplied; the pending entry written by \<open>create\<close> followed by the pending entry
  pushed by the hook; and priority urgent if the request is an emergency.
\<close>

lemma PickupRepository_create_result:
  "PickupRepository_create st now newId data = (Inr d, st') \<Longrightarrow>
   status d = ''pending'' \<and>
   statusHistory d = [\<lparr>hstatus = ''pending'', hnote = None, hupdatedAt = now\<rparr>,
                      \<lparr>hstatus = ''pending'', hnote = None, hupdatedAt = now\<rparr>] \<and>
   (isEmergency d \<longrightarrow> priority d = ''urgent'') \<and>
   map_of (db st') newId = Some d"
proof -
  assume a: "PickupRepository_create st now newId data = (Inr d, st')"
  then obtain data2 where
    b: "BaseRepository_create st now newId data2 = (Inr d, st')" and
    s: "d_status data2 = Some ''pending''" and
    h: "d_statusHistory data2 = Some [\<lparr>hstatus = ''pending'', hnote = None, hupdatedAt = now\<rparr>]"
    by (auto simp: PickupRepository_create_def Let_def split: if_splits)
  from BaseRepository_create_result[OF b]
  have d: "d = preSaveHook now (d_status data2 \<noteq> None) (newDocument now data2)"
    and n: "map_of (db st) newId = None" and w: "db st' = db st @ [(newId, d)]" by auto
  have "status d = ''pending''" using d s by (simp add: preSaveHook_status newDocument_def)
  moreover have "statusHistory d = [\<lparr>hstatus = ''pending'', hnote = None, hupdatedAt = now\<rparr>,
                      \<lparr>hstatus = ''pending'', hnote = None, hupdatedAt = now\<rparr>]"
    using d s h by (simp add: preSaveHook_history newDocument_def castHistoryEntry_def)
  moreover have "isEmergency d \<longrightarrow> priority d = ''urgent''" using d preSaveHook_urgent by simp
  moreover have "map_of (db st') newId = Some d" using n w by (simp add: map_add_Some_iff)
  ultimately show ?thesis by simp
qed

text \<open>
  C5 fails on the code in its second half. For the accepted input \<open>sampleData\<close>, whose
  caller supplies status collected and an empty history, the stored request has status
  pending, but its \<open>statusHistory\<close> holds two pending entries, not one: \<open>create\<close> writes
  the first and the \<open>pre('save')\<close> hook, for which the status of a new document is
  modified, pushes the second.
\<close>

theorem create_records_pending_twice:
  "PickupRepository_create \<lparr>db = [], cache = []\<rparr> 1000 idA sampleData =
     (Inr ((samplePickup ''pending'')
             \<lparr>statusHistory :=
                [\<lparr>hstatus = ''pending'', hnote = None, hupdatedAt = 1000\<rparr>,
                 \<lparr>hstatus = ''pending'', hnote = None, hupdatedAt = 1000\<rparr>],
              requestedAt := 1000\<rparr>),
      \<lparr>db = [(idA, (samplePickup ''pending'')
                      \<lparr>statusHistory :=
                         [\<lparr>hstatus = ''pending'', hnote = None, hupdatedAt = 1000\<rparr>,
                          \<lparr>hstatus = ''pending'', hnote = None, hupdatedAt = 1000\<rparr>],
                       requestedAt := 1000\<rparr>)],
       cache = []\<rparr>)"
  by (simp add: eval_defs Let_def)

text \<open>
  The input of that evaluation passes every check of \<open>create\<close>, supplies its own status and
  history, and is stored as pending with the two pending entries.
\<close>

theorem create_records_pending_twice_witness:
  "truthy (optStr (d_clinicId sampleData)) \<and> truthy (optStr (d_wasteType sampleData)) \<and>
   validateWasteType (optStr (d_wasteType sampleData)) \<and> truthy (optNum (d_volumeKg sampleData)) \<and>
   d_volumeKg sampleData = Some 5 \<and>
   isArray (optProp (d_location sampleData) ''coordinates'') \<and>
   schemaErrors 1000 sampleData = [] \<and>
   d_status sampleData = Some ''collected'' \<and> d_statusHistory sampleData = Some [] \<and>
   (\<exists>d st'. PickupRepository_create \<lparr>db = [], cache = []\<rparr> 1000 idA sampleData = (Inr d, st') \<and>
      status d = ''pending'' \<and> map hstatus (statusHistory d) = [''pending'', ''pending''])"
  using create_records_pending_twice
  by (simp add: sampleData_def samplePickup_def optStr_def optNum_def validateWasteType_def
      WASTE_TYPES_def schemaErrors_def ObjectId_isValid_def locationValidator_def
      PICKUP_STATUSES_def)

subsection \<open>The emergency priority\<close>

lemma findById_flag:
  "PickupRepository_findById st now pid = (Inr request, st1) \<Longrightarrow> cachedFlagAgrees st pid \<Longrightarrow>
   map_of (db st) pid = Some d \<Longrightarrow> isEmergency request = isEmergency d"
  by (auto simp: PickupRepository_findById_def getCacheValue_def cachedFlagAgrees_def findOneActive_def
      split: prod.splits option.splits if_splits)

lemma BaseRepository_update_result:
  "BaseRepository_update st pid u = (Inr d2, st2) \<Longrightarrow>
   \<exists>d. map_of (db st) pid = Some d \<and> d2 = applyUpdate u d \<and> map_of (db st2) pid = Some d2 \<and>
       cache st2 = cache st"
  by (auto simp: BaseRepository_update_def update_conv' split: if_splits option.splits)

lemma PickupRepository_update_result:
  "PickupRepository_update st now pid data = (Inr d2, st2) \<Longrightarrow>
   \<exists>d request. map_of (db st) pid = Some d \<and> d2 = applyUpdate (buildUpdate request now data) d \<and>
       map_of (db st2) pid = Some d2"
proof -
  assume a: "PickupRepository_update st now pid data = (Inr d2, st2)"
  then obtain request st1 st3 where
    f: "PickupRepository_findById st now pid = (Inr request, st1)" and
    b: "BaseRepository_update st1 pid (buildUpdate request now data) = (Inr d2, st3)" and
    c: "st2 = st3\<lparr>cache := AList.delete (cacheKey pid) (cache st3)\<rparr>"
    by (auto simp: PickupRepository_update_def split: if_splits prod.splits sum.splits option.splits)
  from findById_db[OF f] have "db st1 = db st" .
  with BaseRepository_update_result[OF b] c show ?thesis by auto
qed

text \<open>
  What the mechanisms that the claim names do: the hook and \<open>create\<close> above, and
  \<open>updatePriority\<close>, which rejects, without writing, a priority other than urgent for a
  request that it reads as an emergency, and after which a request that it stored is
  urgent if it is an emergency (given that a cached copy of the request has the stored
  emergency flag).
\<close>

lemma updatePriority_rejects:
  "PickupRepository_findById st now pid = (Inr request, st1) \<Longrightarrow> isEmergency request \<Longrightarrow>
   newPriority \<in> set PRIORITIES \<Longrightarrow> newPriority \<noteq> ''urgent'' \<Longrightarrow>
   updatePriority st now pid newPriority note =
     (Inl (ValidationError ''Emergency requests must maintain urgent priority''), st1) \<and> db st1 = db st"
  by (simp add: updatePriority_def findById_db)

lemma updatePriority_result:
  assumes a: "updatePriority st now pid newPriority note = (Inr d2, st2)"
    and g: "cachedFlagAgrees st pid"
  shows "(isEmergency d2 \<longrightarrow> priority d2 = ''urgent'') \<and> map_of (db st2) pid = Some d2 \<and>
         priority d2 = newPriority"
proof -
  from a obtain request st1 st3 where
    f: "PickupRepository_findById st now pid = (Inr request, st1)" and
    e: "\<not> (isEmergency request \<and> newPriority \<noteq> ''urgent'')" and
    u: "PickupRepository_update st1 now pid
          (emptyUpdate\<lparr>u_priority := Some newPriority,
             u_statusHistory := Some (statusHistory request @
                [\<lparr>hstatus = status request,
                  hnote = Some (''Priority changed to '' @ newPriority @
                                (if note \<noteq> [] then '': '' @ note else [])),
                  hupdatedAt = now\<rparr>])\<rparr>) = (Inr d2, st3)" and
    c: "st2 = st3\<lparr>cache := AList.delete (cacheKey pid) (cache st3)\<rparr>"
    by (auto simp: updatePriority_def split: if_splits prod.splits sum.splits)
  from findById_db[OF f] have d1: "db st1 = db st" .
  from PickupRepository_update_result[OF u] obtain d request' where
    m: "map_of (db st1) pid = Some d" and
    r: "d2 = applyUpdate (buildUpdate request' now
          (emptyUpdate\<lparr>u_priority := Some newPriority,
             u_statusHistory := Some (statusHistory request @
                [\<lparr>hstatus = status request,
                  hnote = Some (''Priority changed to '' @ newPriority @
                                (if note \<noteq> [] then '': '' @ note else [])),
                  hupdatedAt = now\<rparr>])\<rparr>)) d" and
    w: "map_of (db st3) pid = Some d2" by blast
  from r have p: "priority d2 = newPriority" and i: "isEmergency d2 = isEmergency d"
    by (simp_all add: applyUpdate_def buildUpdate_def emptyUpdate_def)
  from findById_flag[OF f g] m d1 have "isEmergency request = isEmergency d" by simp
  with e p i have "isEmergency d2 \<longrightarrow> priority d2 = ''urgent''" by auto
  with w c p show ?thesis by simp
qed

text \<open>
  C9 fails on the code. The hook, \<open>create\<close> and \<open>updatePriority\<close> keep an emergency urgent,
  but the priority of a request is also set by \<open>PickupRepository.update\<close>, to which the
  service's \<open>modifyPickupRequest\<close> hands the body of the request: it writes with
  \<open>findByIdAndUpdate\<close>, so no save hook runs, and it has no guard of its own. The emergency
  request that \<open>create\<close> stored as urgent is stored with priority low by
  \<open>update(id, { priority: 'low' })\<close>, the very change that \<open>updatePriority\<close> rejects.
\<close>

theorem emergency_priority_lowered_by_update:
  "PickupRepository_create \<lparr>db = [], cache = []\<rparr> 1000 idA emergencyData =
     (Inr createdEmergency, \<lparr>db = [(idA, createdEmergency)], cache = []\<rparr>) \<and>
   isEmergency createdEmergency \<and> priority createdEmergency = ''urgent'' \<and>
   updatePriority \<lparr>db = [(idA, createdEmergency)], cache = []\<rparr> 2000 idA ''low'' [] =
     (Inl (ValidationError ''Emergency requests must maintain urgent priority''),
      \<lparr>db = [(idA, createdEmergency)], cache = [(cacheKey idA, (createdEmergency, 2000))]\<rparr>) \<and>
   PickupRepository_update \<lparr>db = [(idA, createdEmergency)], cache = []\<rparr> 2000 idA
       (emptyUpdate\<lparr>u_priority := Some ''low''\<rparr>) =
     (Inr (createdEmergency\<lparr>priority := ''low''\<rparr>),
      \<lparr>db = [(idA, createdEmergency\<lparr>priority := ''low''\<rparr>)], cache = []\<rparr>) \<and>
   isEmergency (createdEmergency\<lparr>priority := ''low''\<rparr>) \<and>
   priority (createdEmergency\<lparr>priority := ''low''\<rparr>) = ''low''"
  by (simp add: eval_defs Let_def)

text \<open>
  The input of that evaluation is accepted at every step: the data pass the checks of
  \<open>create\<close> and of the schema, the update passes the validators, and the request that the
  update returns and stores is an emergency whose priority is not urgent.
\<close>

theorem emergency_priority_lowered_by_update_witness:
  "truthy (optStr (d_clinicId emergencyData)) \<and> truthy (optStr (d_wasteType emergencyData)) \<and>
   validateWasteType (optStr (d_wasteType emergencyData)) \<and>
   truthy (optNum (d_volumeKg emergencyData)) \<and> d_volumeKg emergencyData = Some 5 \<and>
   isArray (optProp (d_location emergencyData) ''coordinates'') \<and>
   schemaErrors 1000 (emergencyData\<lparr>d_priority := Some ''urgent'', d_status := Some ''pending'',
      d_requestedAt := Some 1000,
      d_statusHistory := Some [\<lparr>hstatus = ''pending'', hnote = None, hupdatedAt = 1000\<rparr>]\<rparr>) = [] \<and>
   updateValidators (emptyUpdate\<lparr>u_priority := Some ''low''\<rparr>) \<and>
   ObjectId_isValid idA \<and>
   (\<exists>d st'. PickupRepository_update \<lparr>db = [(idA, createdEmergency)], cache = []\<rparr> 2000 idA
                (emptyUpdate\<lparr>u_priority := Some ''low''\<rparr>) = (Inr d, st') \<and>
      map_of (db st') idA = Some d \<and> isEmergency d \<and> priority d \<noteq> ''urgent'')"
  using emergency_priority_lowered_by_update
  by (simp add: eval_defs)

subsection \<open>Nearby search\<close>

lemma map_of_spread_other:
  "k \<notin> fst ` set extra \<Longrightarrow> map_of (spread base extra) k = map_of base k"
  unfolding spread_def
  by (induction extra arbitrary: base) (auto simp: update_conv')

text \<open>
  C6, as the code has it. \<open>PickupRepository.findNearby\<close> throws \<open>ValidationError\<close> unless
  \<open>coordinates\<close> is an array of two elements, and otherwise issues one query; its
  \<open>location\<close> is the \<open>$near\<close> clause on the given point with \<open>$maxDistance\<close> the given
  radius (10000 when none is given), and its \<open>isDeleted\<close> is \<open>{ $ne: true }\<close>, each provided
  that \<open>filters\<close> has no property of that name, since \<open>filters\<close> is spread last. The
  schema's static defaults to 5000 and always queries \<open>isDeleted: false\<close>.
\<close>

theorem findNearby_query:
  "(\<not> (isArray coords \<and> arrayLength coords = Some 2) \<longrightarrow>
      PickupRepository_findNearby coords maxDistance filters =
        Inl (ValidationError ''Valid coordinates [longitude, latitude] are required'')) \<and>
   (isArray coords \<and> arrayLength coords = Some 2 \<longrightarrow>
      (\<exists>q. PickupRepository_findNearby coords maxDistance filters = Inr (JObj q) \<and>
           (''location'' \<notin> fst ` set filters \<longrightarrow>
              map_of q ''location'' = Some (nearClause coords (withDefault (JNum 10000) maxDistance))) \<and>
           (''isDeleted'' \<notin> fst ` set filters \<longrightarrow>
              map_of q ''isDeleted'' = Some (JObj [(''$ne'', JBool True)])))) \<and>
   withDefault (JNum 10000) JUndefined = JNum 10000 \<and>
   (\<exists>q. static_findNearby coords JUndefined filters = JObj q \<and>
        map_of q ''isDeleted'' = Some (JBool False) \<and>
        (''location'' \<notin> fst ` set filters \<longrightarrow>
           map_of q ''location'' = Some (nearClause coords (JNum 5000))))"
proof -
  have a: "\<not> (isArray coords \<and> arrayLength coords = Some 2) \<longrightarrow>
      PickupRepository_findNearby coords maxDistance filters =
        Inl (ValidationError ''Valid coordinates [longitude, latitude] are required'')"
    by (cases coords) (auto simp: PickupRepository_findNearby_def)
  have b: "isArray coords \<and> arrayLength coords = Some 2 \<longrightarrow>
      (\<exists>q. PickupRepository_findNearby coords maxDistance filters = Inr (JObj q) \<and>
           (''location'' \<notin> fst ` set filters \<longrightarrow>
              map_of q ''location'' = Some (nearClause coords (withDefault (JNum 10000) maxDistance))) \<and>
           (''isDeleted'' \<notin> fst ` set filters \<longrightarrow>
              map_of q ''isDeleted'' = Some (JObj [(''$ne'', JBool True)])))"
    by (cases coords) (auto simp: PickupRepository_findNearby_def map_of_spread_other)
  have c: "\<exists>q. static_findNearby coords JUndefined filters = JObj q \<and>
        map_of q ''isDeleted'' = Some (JBool False) \<and>
        (''location'' \<notin> fst ` set filters \<longrightarrow>
           map_of q ''location'' = Some (nearClause coords (JNum 5000)))"
    by (simp add: static_findNearby_def update_conv' map_of_spread_other withDefault_def)
  from a b c show ?thesis by (simp add: withDefault_def)
qed

theorem findNearby_query_witness:
  "isArray (JArr [JNum 77, JNum 12]) \<and> arrayLength (JArr [JNum 77, JNum 12]) = Some 2 \<and>
   \<not> (isArray (JObj [(''coordinates'', JArr [JNum 77, JNum 12])]) \<and>
      arrayLength (JObj [(''coordinates'', JArr [JNum 77, JNum 12])]) = Some 2) \<and>
   ''location'' \<notin> fst ` set [(''status'', JStr ''pending'')] \<and>
   ''isDeleted'' \<notin> fst ` set [(''status'', JStr ''pending'')] \<and>
   PickupRepository_findNearby (JObj [(''coordinates'', JArr [JNum 77, JNum 12])]) (JNum 2500)
       [(''status'', JStr ''pending'')] =
     Inl (ValidationError ''Valid coordinates [longitude, latitude] are required'') \<and>
   PickupRepository_findNearby (JArr [JNum 77, JNum 12]) (JNum 2500) [(''status'', JStr ''pending'')] =
     Inr (JObj [(''location'', nearClause (JArr [JNum 77, JNum 12]) (JNum 2500)),
                (''isDeleted'', JObj [(''$ne'', JBool True)]),
                (''status'', JStr ''pending'')])"
  using findNearby_query [of "JArr [JNum 77, JNum 12]" "JNum 2500" "[(''status'', JStr ''pending'')]"]
    findNearby_query [of "JObj [(''coordinates'', JArr [JNum 77, JNum 12])]" "JNum 2500"
      "[(''status'', JStr ''pending'')]"]
  by (simp add: PickupRepository_findNearby_def spread_def withDefault_def)

text \<open>
  C6 as the claim states it fails for some \<open>filters\<close>: with \<open>filters = { isDeleted: true }\<close>
  the query that is issued asks for the soft-deleted documents.
\<close>

theorem findNearby_filters_override_counterexample:
  "PickupRepository_findNearby (JArr [JNum 77, JNum 12]) (JNum 2500) [(''isDeleted'', JBool True)] =
     Inr (JObj [(''location'', nearClause (JArr [JNum 77, JNum 12]) (JNum 2500)),
                (''isDeleted'', JBool True)])"
  by (simp add: PickupRepository_findNearby_def spread_def withDefault_def)

subsection \<open>The service\<close>

lemma validateStatus_array: "\<not> validateStatus (JArr xs)"
  by (simp add: validateStatus_def)

text \<open>
  C8. \<open>addPickupRequest\<close> throws \<open>ValidationError\<close> on every request data and leaves the
  repository as it was, so nothing is created: for an invalid clinic id or invalid
  coordinates by its own checks, and otherwise because \<open>findByStatus\<close>, given the array
  of two statuses, throws 'Invalid status', which the \<open>catch\<close> rethrows.
\<close>

theorem addPickupRequest_always_rejects:
  "addPickupRequest st now newId data =
     (Inl (ValidationError
        (if \<not> validateObjectId (optStr (d_clinicId data)) then ''Invalid clinic ID''
         else if truthy (d_location data) \<and>
                 \<not> validateCoordinates (optProp (d_location data) ''coordinates'')
         then ''Invalid coordinates'' else ''Invalid status'')), st) \<and>
   findByStatus st (JArr [JStr ''pending'', JStr ''assigned'']) = Inl (ValidationError ''Invalid status'')"
  by (simp add: addPickupRequest_def addPickupRequest_body_def findByStatus_def
      validateStatus_array rethrowValidation_def)

text \<open>
  \<open>findNearbyPickups\<close> in fact never returns: coordinates that pass its own check belong
  to a location object, which it hands to the repository in place of the coordinates.
\<close>

lemma findNearbyPickups_never_returns:
  "\<exists>e. findNearbyPickups location radius =
          Inl (InternalError ''Failed to fetch nearby pickups'' (Some e))"
proof (cases "validateCoordinates (optProp location ''coordinates'')")
  case False
  then show ?thesis by (simp add: findNearbyPickups_def)
next
  case True
  then have "\<not> isArray location" by (cases location) auto
  then show ?thesis using True
    by (simp add: findNearbyPickups_def PickupRepository_findNearby_def)
qed

text \<open>
  C10. For every location whose coordinates fail \<open>validateCoordinates\<close>,
  \<open>findNearbyPickups\<close> throws an \<open>InternalError\<close> (status 500) that wraps the
  \<open>ValidationError\<close>, not a \<open>ValidationError\<close> (status 400); \<open>fetchPickupRequestById\<close>
  on an invalid id throws the \<open>ValidationError\<close> itself.
\<close>

theorem findNearbyPickups_wraps_validation:
  "(\<not> validateCoordinates (optProp location ''coordinates'') \<longrightarrow>
      findNearbyPickups location radius =
        Inl (InternalError ''Failed to fetch nearby pickups''
               (Some (ValidationError ''Invalid location coordinates'')))) \<and>
   statusCode (InternalError ''Failed to fetch nearby pickups''
                 (Some (ValidationError ''Invalid location coordinates''))) = Some 500 \<and>
   \<not> isValidationError (InternalError ''Failed to fetch nearby pickups''
                 (Some (ValidationError ''Invalid location coordinates''))) \<and>
   (\<not> validateObjectId (JStr pid) \<longrightarrow>
      fetchPickupRequestById st now pid = (Inl (ValidationError ''Invalid pickup request ID''), st)) \<and>
   statusCode (ValidationError ''Invalid pickup request ID'') = Some 400"
  by (simp add: findNearbyPickups_def fetchPickupRequestById_def rethrowValidationOrNotFound_def)

theorem findNearbyPickups_wraps_validation_witness:
  "\<not> validateCoordinates (optProp (JObj [(''type'', JStr ''Point''),
        (''coordinates'', JArr [JNum 200, JNum 12])]) ''coordinates'') \<and>
   findNearbyPickups (JObj [(''type'', JStr ''Point''), (''coordinates'', JArr [JNum 200, JNum 12])])
       (JNum 5000) =
     Inl (InternalError ''Failed to fetch nearby pickups''
            (Some (ValidationError ''Invalid location coordinates''))) \<and>
   \<not> validateObjectId (JStr ''42'') \<and>
   fetchPickupRequestById oneAssigned 1000 ''42'' =
     (Inl (ValidationError ''Invalid pickup request ID''), oneAssigned)"
proof -
  have h1: "\<not> validateCoordinates (optProp (JObj [(''type'', JStr ''Point''),
        (''coordinates'', JArr [JNum 200, JNum 12])]) ''coordinates'')"
    by simp
  have h2: "\<not> validateObjectId (JStr ''42'')"
    by (simp add: ObjectId_isValid_def)
  from findNearbyPickups_wraps_validation
      [of "JObj [(''type'', JStr ''Point''), (''coordinates'', JArr [JNum 200, JNum 12])]"
          "JNum 5000" "''42''" oneAssigned 1000] h1 h2
  show ?thesis by blast
qed

end
